theory Spec2Isabelle
  imports Main
begin

section \<open>The iOS browser driver of DalekJS (index.js)\<close>

text \<open>
  The driver is one JavaScript object, \<^verbatim>\<open>IosDriver\<close>, whose methods mutate the object and
  the Node process (the write functions of stdout and stderr) and call four external
  collaborators: the port scanner, \<^verbatim>\<open>child_process\<close>, the appium server and a Q deferred.
  The embedding passes one state record through every method. The methods whose names start
  with an underscore in the source carry the prefix \<open>p_\<close> here, since an identifier cannot
  start with an underscore: \<^verbatim>\<open>_kill\<close> is \<open>p_kill\<close>, beside the public \<open>kill\<close>.
\<close>

subsection \<open>Strings\<close>

text \<open>
  \<^verbatim>\<open>String.prototype.split\<close> with a one-character separator: the pieces between the
  occurrences of the separator, in order, empty pieces included; the empty string splits
  into one empty piece.
\<close>

fun split_acc :: "char \<Rightarrow> string \<Rightarrow> string \<Rightarrow> string list" where
  "split_acc sep cur [] = [cur]"
| "split_acc sep cur (c # cs) =
     (if c = sep then cur # split_acc sep [] cs else split_acc sep (cur @ [c]) cs)"

definition js_split :: "string \<Rightarrow> char \<Rightarrow> string list" where
  "js_split s sep = split_acc sep [] s"

text \<open>Reading an array at an index: \<^verbatim>\<open>undefined\<close> (here \<open>None\<close>) out of range.\<close>

definition js_index :: "'a list \<Rightarrow> nat \<Rightarrow> 'a option" where
  "js_index xs i = (if i < length xs then Some (xs ! i) else None)"

text \<open>\<^verbatim>\<open>Array.prototype.join\<close>.\<close>

fun js_join :: "string list \<Rightarrow> string \<Rightarrow> string" where
  "js_join [] sep = []"
| "js_join [x] sep = x"
| "js_join (x # y # ys) sep = x @ sep @ js_join (y # ys) sep"

text \<open>
  \<^verbatim>\<open>String.prototype.replace\<close> with a string pattern: the first occurrence only.
\<close>

fun js_replace :: "string \<Rightarrow> string \<Rightarrow> string \<Rightarrow> string" where
  "js_replace [] pat rep = (if pat = [] then rep else [])"
| "js_replace (c # cs) pat rep =
     (if take (length pat) (c # cs) = pat then rep @ drop (length pat) (c # cs)
      else c # js_replace cs pat rep)"

subsection \<open>Numbers\<close>

text \<open>
  Ports are JavaScript numbers with integer values, far below \<open>2 ^ 53\<close>; they are
  modelled as \<open>int\<close>. Concatenating such a number to a string writes it in decimal.
\<close>

definition digit_char :: "nat \<Rightarrow> char" where
  "digit_char d = ''0123456789'' ! d"

fun digits :: "nat \<Rightarrow> string" where
  "digits n =
     (if n < 10 then [digit_char n] else digits (n div 10) @ [digit_char (n mod 10)])"

declare digits.simps [simp del]

definition js_string_of_int :: "int \<Rightarrow> string" where
  "js_string_of_int i = (if i < 0 then CHR ''-'' # digits (nat (- i)) else digits (nat i))"

text \<open>\<^verbatim>\<open>parseInt(n, 10)\<close> of a number with an integer value is that value.\<close>

definition parseInt :: "int \<Rightarrow> int" where
  "parseInt n = n"

text \<open>
  A number read from the user's configuration is truthy when it is there and is not zero.
\<close>

fun truthy_num :: "int option \<Rightarrow> bool" where
  "truthy_num None = False"
| "truthy_num (Some n) = (n \<noteq> 0)"

text \<open>
  The number behind a truthy value. In the source the value of a missing key is
  \<^verbatim>\<open>undefined\<close>, which is never truthy, so the first case is never read.
\<close>

fun number :: "int option \<Rightarrow> int" where
  "number None = 0"
| "number (Some n) = n"

text \<open>A property that holds a number or is \<^verbatim>\<open>undefined\<close>, concatenated to a string.\<close>

fun js_string_of_num :: "int option \<Rightarrow> string" where
  "js_string_of_num None = ''undefined''"
| "js_string_of_num (Some n) = js_string_of_int n"

subsection \<open>The data of the driver\<close>

text \<open>
  A write function of the process is a value with an identity: one of the functions the
  process started with, the closure \<^verbatim>\<open>noop\<close> that one call of \<^verbatim>\<open>_suppressAppiumLogs\<close>
  created (numbered by the call), or \<^verbatim>\<open>undefined\<close>.
\<close>

datatype writer = WUndefined | WNative string | WNoop nat

datatype js_error = TypeError string

datatype scan_error = ScanError string

datatype exec_error = ExecError int

datatype appium_server = AppiumServer nat

text \<open>
  The state of a Q deferred. The rejection reasons are the error names of the
  specification; the source has no call of \<^verbatim>\<open>deferred.reject\<close>.
\<close>

datatype rejection = PortExhaustedError | ProcessQueryError | ExternalServerStartError

datatype promise_state = Pending | Fulfilled | Rejected rejection

text \<open>The object \<^verbatim>\<open>appiumArgs\<close>; its keys carry the prefix \<open>arg_\<close>.\<close>

record appiumArgs =
  arg_app :: "string option"
  arg_ipa :: "string option"
  arg_quiet :: bool
  arg_udid :: "string option"
  arg_keepArtifacts :: bool
  arg_noSessionOverride :: bool
  arg_fullReset :: bool
  arg_noReset :: bool
  arg_launch :: bool
  arg_log :: bool
  arg_nativeInstrumentsLib :: bool
  arg_safari :: bool
  arg_forceIphone :: bool
  arg_forceIpad :: bool
  arg_orientation :: "string option"
  arg_useKeystore :: bool
  arg_address :: string
  arg_nodeconfig :: "string option"
  arg_port :: "int option"
  arg_webhook :: "string option"

text \<open>
  What the driver reads from its caller: the browser configuration (its \<^verbatim>\<open>type\<close>), and
  the value of \<^verbatim>\<open>config.get('browsers')\<close>, which is an array of browser entries, some
  other truthy value, or nothing. An entry has an \<^verbatim>\<open>ios\<close> object or not (a plain browser
  name such as \<^verbatim>\<open>'ios'\<close> has none).
\<close>

record configuration =
  cfg_type :: "string option"

record ios_config =
  ios_port :: "int option"
  ios_portRange :: "int list option"
  ios_webhookPort :: "int option"
  ios_webhookPortRange :: "int list option"

record browser =
  ios :: "ios_config option"

datatype browsers_value = BrowsersUndefined | BrowsersNoArray | BrowsersArray "browser list"

record config =
  cfg_browsers :: browsers_value

text \<open>
  Everything the driver does to the outside is an event of the trace, in the order it
  happens: a call of an external function, and the moment the external function calls the
  driver back.
\<close>

datatype event =
    Emit string string
  | PortScanCall int "int option" string
  | PortScanCallback "scan_error option" int
  | ExecCall string
  | ExecCallback "exec_error option" string
  | AppiumRunCall appiumArgs
  | AppiumReady appium_server
  | Resolve
  | WebSocketServerClose appium_server
  | RestListenClose appium_server
  | SetTimeout nat
  | TimeoutFired
  | Spawn string "string list"

text \<open>
  The state: the properties of \<^verbatim>\<open>IosDriver\<close> that the methods read or write, the two write
  functions of the process, the number of \<^verbatim>\<open>noop\<close> closures created so far, the deferred of
  the latest launch, and the trace.
\<close>

record machine =
  longName :: string
  port :: int
  maxPort :: "int option"
  webhookPort :: int
  maxWebhookPort :: "int option"
  host :: string
  path :: string
  appiumArgs :: appiumArgs
  configuration :: "configuration option"
  config :: "config option"
  openProcesses :: "string list option"
  oldWrite :: writer
  oldWriteErr :: writer
  appiumServer :: "appium_server option"
  stdout_write :: writer
  stderr_write :: writer
  noops :: nat
  deferred :: "promise_state option"
  trace :: "event list"

text \<open>
  The object as the module exports it (no \<^verbatim>\<open>maxPort\<close>, no \<^verbatim>\<open>maxWebhookPort\<close>), in a
  process with the given write functions.
\<close>

definition IosDriver :: "writer \<Rightarrow> writer \<Rightarrow> machine" where
  "IosDriver out err =
     \<lparr> longName = ''Mobile Safari iOS (iPhone)'',
       port = 4723,
       maxPort = None,
       webhookPort = 9003,
       maxWebhookPort = None,
       host = ''localhost'',
       path = ''/wd/hub'',
       appiumArgs =
         \<lparr> arg_app = None, arg_ipa = None, arg_quiet = True, arg_udid = None,
           arg_keepArtifacts = False, arg_noSessionOverride = False, arg_fullReset = False,
           arg_noReset = False, arg_launch = False, arg_log = False,
           arg_nativeInstrumentsLib = False, arg_safari = False, arg_forceIphone = False,
           arg_forceIpad = False, arg_orientation = None, arg_useKeystore = False,
           arg_address = ''0.0.0.0'', arg_nodeconfig = None, arg_port = None,
           arg_webhook = None \<rparr>,
       configuration = None,
       config = None,
       openProcesses = None,
       oldWrite = WUndefined,
       oldWriteErr = WUndefined,
       appiumServer = None,
       stdout_write = out,
       stderr_write = err,
       noops = 0,
       deferred = None,
       trace = [] \<rparr>"

text \<open>
  The answers of the outside: the port scanner's callback arguments for a preferred port,
  a maximum and a host; the callback arguments of \<^verbatim>\<open>child_process.exec\<close> for a command
  (the text of stdout is a string also when there is an error); and the server that
  \<^verbatim>\<open>appium.run\<close> hands to its callback, or \<open>None\<close> when the server does not start and
  the callback is never called.
\<close>

record env =
  findAPortNotInUse :: "int \<Rightarrow> int option \<Rightarrow> string \<Rightarrow> scan_error option \<times> int"
  exec :: "string \<Rightarrow> exec_error option \<times> string"
  appium_run :: "appiumArgs \<Rightarrow> appium_server option"

definition emit :: "string \<Rightarrow> string \<Rightarrow> machine \<Rightarrow> machine" where
  "emit name msg m = m\<lparr>trace := trace m @ [Emit name msg]\<rparr>"

definition happens :: "event \<Rightarrow> machine \<Rightarrow> machine" where
  "happens e m = m\<lparr>trace := trace m @ [e]\<rparr>"

text \<open>\<^verbatim>\<open>forEach\<close> with a callback that may throw: the first exception ends the loop.\<close>

fun forEach :: "('a \<Rightarrow> 's \<Rightarrow> 'e + 's) \<Rightarrow> 'a list \<Rightarrow> 's \<Rightarrow> 'e + 's" where
  "forEach f [] s = Inr s"
| "forEach f (x # xs) s = (case f x s of Inl e \<Rightarrow> Inl e | Inr s' \<Rightarrow> forEach f xs s')"

subsection \<open>Accessors\<close>

definition getPort :: "machine \<Rightarrow> int" where
  "getPort m = port m"

definition getMaxPort :: "machine \<Rightarrow> int option" where
  "getMaxPort m = maxPort m"

definition getWebhookPort :: "machine \<Rightarrow> int" where
  "getWebhookPort m = webhookPort m"

definition getMaxWebhookPort :: "machine \<Rightarrow> int option" where
  "getMaxWebhookPort m = maxWebhookPort m"

definition getHost :: "machine \<Rightarrow> string" where
  "getHost m = host m"

subsection \<open>Console output\<close>

definition p_suppressAppiumLogs :: "machine \<Rightarrow> machine" where
  "p_suppressAppiumLogs m =
     (let noop = WNoop (noops m);
          m = m\<lparr>noops := Suc (noops m)\<rparr>;
          m = m\<lparr>oldWrite := stdout_write m\<rparr>;
          m = m\<lparr>oldWriteErr := stderr_write m\<rparr>;
          m = m\<lparr>stdout_write := noop\<rparr>;
          m = m\<lparr>stderr_write := noop\<rparr>
      in m)"

definition p_reinstantiateLog :: "machine \<Rightarrow> machine" where
  "p_reinstantiateLog m = m\<lparr>stdout_write := oldWrite m\<rparr>"

subsection \<open>User defined ports\<close>

definition p_checkAppiumPorts :: "browser \<Rightarrow> machine \<Rightarrow> machine" where
  "p_checkAppiumPorts browser m =
     (let m =
        (case ios browser of
           None \<Rightarrow> m
         | Some i \<Rightarrow>
             if truthy_num (ios_port i) then
               (let m = m\<lparr>port := parseInt (number (ios_port i))\<rparr>;
                    m = m\<lparr>maxPort := Some (port m + 90)\<rparr>
                in emit ''report:log:system''
                     (''dalek-browser-ios: Switching to user defined port: ''
                        @ js_string_of_int (port m)) m)
             else m)
      in
        (case ios browser of
           None \<Rightarrow> m
         | Some i \<Rightarrow>
             (case ios_portRange i of
                Some [r0, r1] \<Rightarrow>
                  (let m = m\<lparr>port := parseInt r0\<rparr>;
                       m = m\<lparr>maxPort := Some (parseInt r1)\<rparr>
                   in emit ''report:log:system''
                        (''dalek-browser-ios: Switching to user defined port(s): ''
                           @ js_string_of_int (port m) @ '' -> ''
                           @ js_string_of_num (maxPort m)) m)
              | _ \<Rightarrow> m)))"

definition p_checkWebhookPorts :: "browser \<Rightarrow> machine \<Rightarrow> machine" where
  "p_checkWebhookPorts browser m =
     (let m =
        (case ios browser of
           None \<Rightarrow> m
         | Some i \<Rightarrow>
             if truthy_num (ios_webhookPort i) then
               (let m = m\<lparr>webhookPort := parseInt (number (ios_webhookPort i))\<rparr>;
                    m = m\<lparr>maxWebhookPort := Some (webhookPort m + 90)\<rparr>
                in emit ''report:log:system''
                     (''dalek-browser-ios: Switching to user defined webhook port: ''
                        @ js_string_of_int (webhookPort m)) m)
             else m)
      in
        (case ios browser of
           None \<Rightarrow> m
         | Some i \<Rightarrow>
             (case ios_webhookPortRange i of
                Some [r0, r1] \<Rightarrow>
                  (let m = m\<lparr>webhookPort := parseInt r0\<rparr>;
                       m = m\<lparr>maxWebhookPort := Some (parseInt r1)\<rparr>
                   in emit ''report:log:system''
                        (''dalek-browser-ios: Switching to user defined webhook port(s): ''
                           @ js_string_of_int (webhookPort m) @ '' -> ''
                           @ js_string_of_num (maxWebhookPort m)) m)
              | _ \<Rightarrow> m)))"

definition p_checkUserDefinedPorts :: "browser \<Rightarrow> machine \<Rightarrow> machine" where
  "p_checkUserDefinedPorts browser m = p_checkWebhookPorts browser (p_checkAppiumPorts browser m)"

subsection \<open>Parsing the process listing\<close>

text \<open>
  \<^verbatim>\<open>_filterProcessItem\<close> returns the item itself when it is not the empty string and
  \<^verbatim>\<open>false\<close> otherwise; \<^verbatim>\<open>Array.prototype.filter\<close> keeps an element when the returned
  value is truthy.
\<close>

datatype str_or_false = Item string | JFalse

fun truthy :: "str_or_false \<Rightarrow> bool" where
  "truthy (Item s) = (s \<noteq> [])"
| "truthy JFalse = False"

definition p_filterProcessItem :: "string \<Rightarrow> str_or_false" where
  "p_filterProcessItem item = (if item \<noteq> [] then Item item else JFalse)"

text \<open>
  \<^verbatim>\<open>_scanProcess(result, line)\<close>: \<^verbatim>\<open>data[1] === '??'\<close> is false when \<^verbatim>\<open>data[1]\<close> is
  \<^verbatim>\<open>undefined\<close>; when it holds, \<^verbatim>\<open>data\<close> has at least two elements and \<^verbatim>\<open>data[0]\<close>
  is pushed on the shared result array.
\<close>

definition p_scanProcess :: "string list \<Rightarrow> string \<Rightarrow> string list" where
  "p_scanProcess result line =
     (let data = js_split line CHR '' '';
          data = filter (\<lambda>item. truthy (p_filterProcessItem item)) data
      in if js_index data 1 = Some ''??'' then result @ [data ! 0] else result)"

text \<open>
  \<^verbatim>\<open>_transformProcesses(fn, err, stdout)\<close> scans every line of the listing into a fresh
  array and hands the error, whatever it is, and the array to the callback.
\<close>

definition p_transformProcesses ::
  "(exec_error option \<Rightarrow> string list \<Rightarrow> machine \<Rightarrow> 'r) \<Rightarrow> exec_error option \<Rightarrow> string
     \<Rightarrow> machine \<Rightarrow> 'r" where
  "p_transformProcesses fn err stdout m =
     (let result = foldl p_scanProcess [] (js_split stdout (CHR 0x0A))
      in fn err result m)"

definition p_processes ::
  "env \<Rightarrow> (exec_error option \<Rightarrow> string list \<Rightarrow> machine \<Rightarrow> 'r) \<Rightarrow> machine \<Rightarrow> 'r" where
  \<open>p_processes e fn m =
     (let cmd = [''ps -ax'', ''|'', ''grep "iPhone Simulator.app"''];
          m = happens (ExecCall (js_join cmd '' '')) m
      in case exec e (js_join cmd '' '') of
           (err, stdout) \<Rightarrow> p_transformProcesses fn err stdout (happens (ExecCallback err stdout) m))\<close>

subsection \<open>Launch\<close>

text \<open>
  The launch is a chain of callbacks: \<^verbatim>\<open>launch\<close> calls the port scanner with
  \<^verbatim>\<open>_checkPorts\<close> as callback, which calls the port scanner again with \<^verbatim>\<open>_launch\<close>, which
  lists the processes with \<^verbatim>\<open>_listProcesses\<close>, which runs appium with
  \<^verbatim>\<open>_afterAppiumStarted\<close>. In the model every external call is followed by the callback it
  is given, applied to the answer of the environment. The deferred that the source binds
  to each callback is the field \<open>deferred\<close>; the emitter that \<^verbatim>\<open>launch\<close> stores in
  \<^verbatim>\<open>reporterEvents\<close> is the trace. The functions are defined in the order of their use, the
  last callback first.
\<close>

definition p_loadAppiumArgs :: "appiumArgs \<Rightarrow> machine \<Rightarrow> appiumArgs" where
  "p_loadAppiumArgs args m =
     (let args = args\<lparr>arg_port := Some (getPort m)\<rparr>;
          args = args\<lparr>arg_webhook :=
                   Some (getHost m @ '':'' @ js_string_of_int (getWebhookPort m))\<rparr>
      in args)"

definition p_afterAppiumStarted :: "appium_server \<Rightarrow> machine \<Rightarrow> machine" where
  "p_afterAppiumStarted server m =
     (let m = m\<lparr>appiumServer := Some server\<rparr>;
          m = p_reinstantiateLog m;
          m = happens Resolve (m\<lparr>deferred := Some Fulfilled\<rparr>)
      in m)"

text \<open>
  \<^verbatim>\<open>_listProcesses(deferred, err, result)\<close>. The argument of \<^verbatim>\<open>_loadAppiumArgs\<close> is the
  driver's own \<^verbatim>\<open>appiumArgs\<close> object, changed in place.
\<close>

definition p_listProcesses :: "env \<Rightarrow> exec_error option \<Rightarrow> string list \<Rightarrow> machine \<Rightarrow> machine" where
  "p_listProcesses e err result m =
     (let m = m\<lparr>openProcesses := Some result\<rparr>;
          m = p_suppressAppiumLogs m;
          args = p_loadAppiumArgs (appiumArgs m) m;
          m = m\<lparr>appiumArgs := args\<rparr>;
          m = happens (AppiumRunCall args) m
      in case appium_run e args of
           None \<Rightarrow> m
         | Some server \<Rightarrow> p_afterAppiumStarted server (happens (AppiumReady server) m))"

definition p_launch :: "env \<Rightarrow> scan_error option \<Rightarrow> int \<Rightarrow> machine \<Rightarrow> machine" where
  "p_launch e error prt m =
     (let m =
        (if webhookPort m \<noteq> prt then
           (let m = emit ''report:log:system''
                      (''dalek-browser-ios: Switching to webhook port: '' @ js_string_of_int prt) m
            in m\<lparr>webhookPort := prt\<rparr>)
         else m)
      in p_processes e (p_listProcesses e) m)"

definition p_checkPorts :: "env \<Rightarrow> scan_error option \<Rightarrow> int \<Rightarrow> machine \<Rightarrow> machine" where
  "p_checkPorts e error prt m =
     (let m =
        (if port m \<noteq> prt then
           (let m = emit ''report:log:system''
                      (''dalek-browser-ios: Switching to port: '' @ js_string_of_int prt) m
            in m\<lparr>port := prt\<rparr>)
         else m);
          m' = happens (PortScanCall (getWebhookPort m) (getMaxWebhookPort m) (getHost m)) m
      in case findAPortNotInUse e (getWebhookPort m) (getMaxWebhookPort m) (getHost m) of
           (error', prt') \<Rightarrow> p_launch e error' prt' (happens (PortScanCallback error' prt') m'))"

definition launch :: "env \<Rightarrow> configuration option \<Rightarrow> config \<Rightarrow> machine \<Rightarrow> machine" where
  "launch e cfgn cfg m =
     (let m = m\<lparr>deferred := Some Pending\<rparr>;
          m = m\<lparr>configuration := cfgn\<rparr>;
          m = m\<lparr>config := Some cfg\<rparr>;
          m =
            (if (case cfgn of None \<Rightarrow> False | Some c \<Rightarrow> cfg_type c = Some ''ipad'') then
               (let m = m\<lparr>longName := js_replace (longName m) ''iPhone'' ''iPad''\<rparr>
                in m\<lparr>appiumArgs := (appiumArgs m)\<lparr>arg_forceIpad := True\<rparr>\<rparr>)
             else m);
          m =
            (case cfg_browsers cfg of
               BrowsersArray bs \<Rightarrow> foldl (\<lambda>m b. p_checkUserDefinedPorts b m) m bs
             | _ \<Rightarrow> m);
          m' = happens (PortScanCall (getPort m) (getMaxPort m) (getHost m)) m
      in case findAPortNotInUse e (getPort m) (getMaxPort m) (getHost m) of
           (error, prt) \<Rightarrow> p_checkPorts e error prt (happens (PortScanCallback error prt) m'))"

subsection \<open>Teardown\<close>

text \<open>
  \<^verbatim>\<open>kill\<close> reads \<^verbatim>\<open>this.appiumServer.webSocket\<close>, and \<^verbatim>\<open>_killProcess\<close> calls
  \<^verbatim>\<open>this.openProcesses.forEach\<close>: each throws a \<^verbatim>\<open>TypeError\<close> when the property is
  \<^verbatim>\<open>undefined\<close>, that is, when no launch has set it. The timer that \<^verbatim>\<open>kill\<close> sets runs
  \<^verbatim>\<open>_processes\<close> with \<^verbatim>\<open>_kill\<close> as callback when it fires.
\<close>

definition p_killProcess :: "string \<Rightarrow> machine \<Rightarrow> js_error + machine" where
  "p_killProcess processID m =
     (case openProcesses m of
        None \<Rightarrow> Inl (TypeError ''openProcesses is undefined'')
      | Some pids \<Rightarrow>
          (let kill = foldl (\<lambda>kill pid. if pid = processID then False else kill) True pids
           in if kill = True then Inr (happens (Spawn ''kill'' [processID]) m) else Inr m))"

definition p_kill :: "exec_error option \<Rightarrow> string list \<Rightarrow> machine \<Rightarrow> js_error + machine" where
  "p_kill err result m =
     (case forEach p_killProcess result m of
        Inl x \<Rightarrow> Inl x
      | Inr m \<Rightarrow> Inr (m\<lparr>stderr_write := oldWriteErr m\<rparr>))"

definition kill :: "env \<Rightarrow> machine \<Rightarrow> js_error + machine" where
  "kill e m =
     (case appiumServer m of
        None \<Rightarrow> Inl (TypeError ''appiumServer is undefined'')
      | Some server \<Rightarrow>
          (let m = happens (WebSocketServerClose server) m;
               m = happens (RestListenClose server) m;
               m = happens (SetTimeout 1000) m
           in p_processes e p_kill (happens TimeoutFired m)))"

subsection \<open>The words of the specification\<close>

text \<open>The tokens of a line as the specification words them.\<close>

definition tokens :: "string \<Rightarrow> string list" where
  "tokens line = filter (\<lambda>t. t \<noteq> []) (js_split line CHR '' '')"

definition matches :: "string \<Rightarrow> bool" where
  "matches line = (2 \<le> length (tokens line) \<and> tokens line ! 1 = ''??'')"

text \<open>The command line that \<^verbatim>\<open>_processes\<close> hands to \<^verbatim>\<open>exec\<close>.\<close>

definition ps_command :: string where
  \<open>ps_command = ''ps -ax | grep "iPhone Simulator.app"''\<close>

text \<open>The matched set of a listing: the first token of every matching line.\<close>

definition parsed :: "string \<Rightarrow> string list" where
  "parsed stdout = map (\<lambda>line. tokens line ! 0) (filter matches (js_split stdout (CHR 0x0A)))"

text \<open>
  The interactions with the outside between two states of one run: the events added to the
  trace, log messages left out.
\<close>

fun is_emit :: "event \<Rightarrow> bool" where
  "is_emit (Emit name msg) = True"
| "is_emit e = False"

definition added :: "machine \<Rightarrow> machine \<Rightarrow> event list" where
  "added m m' = drop (length (trace m)) (trace m')"

definition interactions :: "machine \<Rightarrow> machine \<Rightarrow> event list" where
  "interactions m m' = filter (\<lambda>e. \<not> is_emit e) (added m m')"

fun is_run :: "event \<Rightarrow> bool" where
  "is_run (AppiumRunCall args) = True"
| "is_run e = False"

definition server_start_invoked :: "machine \<Rightarrow> machine \<Rightarrow> bool" where
  "server_start_invoked m m' = list_ex is_run (added m m')"

text \<open>
  The driver at the moment \<^verbatim>\<open>launch\<close> calls the port scanner for the first time: the
  arguments stored, the device type and the user defined ports applied.
\<close>

definition prepared :: "configuration option \<Rightarrow> config \<Rightarrow> machine \<Rightarrow> machine" where
  "prepared cfgn cfg m =
     (let m = m\<lparr>deferred := Some Pending, configuration := cfgn, config := Some cfg\<rparr>;
          m =
            (if (case cfgn of None \<Rightarrow> False | Some c \<Rightarrow> cfg_type c = Some ''ipad'') then
               m\<lparr>longName := js_replace (longName m) ''iPhone'' ''iPad'',
                 appiumArgs := (appiumArgs m)\<lparr>arg_forceIpad := True\<rparr>\<rparr>
             else m)
      in case cfg_browsers cfg of
           BrowsersArray bs \<Rightarrow> foldl (\<lambda>m b. p_checkUserDefinedPorts b m) m bs
         | _ \<Rightarrow> m)"

text \<open>
  A browser entry overrides no port when it has no \<^verbatim>\<open>ios\<close> object, or when the ports of
  that object are missing or zero and its ranges are missing or not of two elements.
\<close>

fun is_pair :: "int list option \<Rightarrow> bool" where
  "is_pair (Some [r0, r1]) = True"
| "is_pair r = False"

definition overrides_nothing :: "browser \<Rightarrow> bool" where
  "overrides_nothing b =
     (case ios b of
        None \<Rightarrow> True
      | Some i \<Rightarrow>
          \<not> truthy_num (ios_port i) \<and> \<not> is_pair (ios_portRange i) \<and>
          \<not> truthy_num (ios_webhookPort i) \<and> \<not> is_pair (ios_webhookPortRange i))"

definition no_port_override :: "config \<Rightarrow> bool" where
  "no_port_override cfg =
     (case cfg_browsers cfg of BrowsersArray bs \<Rightarrow> list_all overrides_nothing bs | _ \<Rightarrow> True)"

fun is_scan_call :: "event \<Rightarrow> bool" where
  "is_scan_call (PortScanCall preferred mx h) = True"
| "is_scan_call e = False"

text \<open>The arguments that \<^verbatim>\<open>appium.run\<close> gets for a control port and a webhook port.\<close>

definition run_args :: "machine \<Rightarrow> int \<Rightarrow> int \<Rightarrow> appiumArgs" where
  "run_args m p w =
     (appiumArgs m)\<lparr>arg_port := Some p,
                     arg_webhook := Some (host m @ '':'' @ js_string_of_int w)\<rparr>"

text \<open>The messages of the two callbacks of the port scanner.\<close>

definition switch_message :: "int \<Rightarrow> event" where
  "switch_message prt =
     Emit ''report:log:system'' (''dalek-browser-ios: Switching to port: '' @ js_string_of_int prt)"

definition switch_webhook_message :: "int \<Rightarrow> event" where
  "switch_webhook_message prt =
     Emit ''report:log:system''
       (''dalek-browser-ios: Switching to webhook port: '' @ js_string_of_int prt)"

text \<open>The messages of the user defined ports.\<close>

definition user_port_message :: "int \<Rightarrow> event" where
  "user_port_message p =
     Emit ''report:log:system''
       (''dalek-browser-ios: Switching to user defined port: '' @ js_string_of_int p)"

definition user_range_message :: "int \<Rightarrow> int \<Rightarrow> event" where
  "user_range_message lo hi =
     Emit ''report:log:system''
       (''dalek-browser-ios: Switching to user defined port(s): '' @ js_string_of_int lo
          @ '' -> '' @ js_string_of_int hi)"

definition user_webhook_port_message :: "int \<Rightarrow> event" where
  "user_webhook_port_message p =
     Emit ''report:log:system''
       (''dalek-browser-ios: Switching to user defined webhook port: '' @ js_string_of_int p)"

definition user_webhook_range_message :: "int \<Rightarrow> int \<Rightarrow> event" where
  "user_webhook_range_message lo hi =
     Emit ''report:log:system''
       (''dalek-browser-ios: Switching to user defined webhook port(s): ''
          @ js_string_of_int lo @ '' -> '' @ js_string_of_int hi)"

subsection \<open>Concrete runs\<close>

text \<open>
  A fresh driver in a process with its two native write functions; a configuration
  without browsers; and three environments: one where everything works and the preferred
  ports are free, one where the process listing fails, one where the server never starts.
\<close>

definition driver0 :: machine where
  "driver0 = IosDriver (WNative ''stdout.write'') (WNative ''stderr.write'')"

definition config0 :: config where
  "config0 = \<lparr> cfg_browsers = BrowsersUndefined \<rparr>"

definition listing0 :: string where
  "listing0 = ''  100 ??  0:01.00 sim'' @ [CHR 0x0A] @ ''  200 ??  0:02.00 sim'' @ [CHR 0x0A]
                @ ''  300 ??  0:03.00 sim'' @ [CHR 0x0A]"

definition env_ok :: env where
  "env_ok = \<lparr> findAPortNotInUse = (\<lambda>preferred mx h. (None, preferred)),
              exec = (\<lambda>cmd. (None, listing0)),
              appium_run = (\<lambda>args. Some (AppiumServer 1)) \<rparr>"

definition env_ps_error :: env where
  "env_ps_error = \<lparr> findAPortNotInUse = (\<lambda>preferred mx h. (None, preferred)),
                    exec = (\<lambda>cmd. (Some (ExecError 127), [])),
                    appium_run = (\<lambda>args. Some (AppiumServer 1)) \<rparr>"

definition env_no_start :: env where
  "env_no_start = \<lparr> findAPortNotInUse = (\<lambda>preferred mx h. (None, preferred)),
                    exec = (\<lambda>cmd. (None, [])),
                    appium_run = (\<lambda>args. None) \<rparr>"

text \<open>
  An environment where the preferred control port 4723 is taken and 4724 is free; the
  driver after a launch where everything works; and the environment of a later teardown,
  where the listing shows one more process.
\<close>

definition env_busy :: env where
  "env_busy = \<lparr> findAPortNotInUse =
                  (\<lambda>preferred mx h. (None, if preferred = 4723 then 4724 else preferred)),
                exec = (\<lambda>cmd. (None, listing0)),
                appium_run = (\<lambda>args. Some (AppiumServer 1)) \<rparr>"

definition driver1 :: machine where
  "driver1 = launch env_ok None config0 driver0"

definition listing1 :: string where
  "listing1 = listing0 @ ''  400 ??  0:04.00 sim'' @ [CHR 0x0A]"

definition env_later :: env where
  "env_later = \<lparr> findAPortNotInUse = (\<lambda>preferred mx h. (None, preferred)),
                 exec = (\<lambda>cmd. (None, listing1)),
                 appium_run = (\<lambda>args. Some (AppiumServer 2)) \<rparr>"

text \<open>
  Browser entries of a user: one with a fixed port, one with a port range, one with both,
  for the control port and for the webhook port; and a configuration with the range alone.
\<close>

definition ios_none :: ios_config where
  "ios_none = \<lparr> ios_port = None, ios_portRange = None, ios_webhookPort = None,
                ios_webhookPortRange = None \<rparr>"

definition browser_port :: browser where
  "browser_port = \<lparr> ios = Some (ios_none\<lparr>ios_port := Some 5555, ios_webhookPort := Some 7000\<rparr>) \<rparr>"

definition browser_range :: browser where
  "browser_range = \<lparr> ios = Some (ios_none\<lparr>ios_portRange := Some [6100, 6120],
                                              ios_webhookPortRange := Some [7100, 7120]\<rparr>) \<rparr>"

definition browser_both :: browser where
  "browser_both = \<lparr> ios = Some \<lparr> ios_port = Some 5555, ios_portRange = Some [6100, 6120],
                                  ios_webhookPort = Some 7000,
                                  ios_webhookPortRange = Some [7100, 7120] \<rparr> \<rparr>"

definition config_range :: config where
  "config_range =
     \<lparr> cfg_browsers = BrowsersArray [\<lparr> ios = Some (ios_none\<lparr>ios_portRange := Some [6100, 6120]\<rparr>) \<rparr>] \<rparr>"

section \<open>Properties\<close>

lemma filter_item_truthy: "truthy (p_filterProcessItem item) = (item \<noteq> [])"
  by (simp add: p_filterProcessItem_def)

lemma p_scanProcess_tokens:
  "p_scanProcess result line =
     (if matches line then result @ [tokens line ! 0] else result)"
  by (auto simp: p_scanProcess_def Let_def filter_item_truthy tokens_def matches_def js_index_def)

lemma foldl_p_scanProcess:
  "foldl p_scanProcess acc ls = acc @ map (\<lambda>l. tokens l ! 0) (filter matches ls)"
  by (induction ls arbitrary: acc) (simp_all add: p_scanProcess_tokens)

lemma ps_command_join: \<open>js_join [''ps -ax'', ''|'', ''grep "iPhone Simulator.app"''] '' '' = ps_command\<close>
  by (simp add: ps_command_def)

lemma p_transformProcesses_parsed:
  "p_transformProcesses fn err stdout m = fn err (parsed stdout) m"
  by (simp add: p_transformProcesses_def parsed_def foldl_p_scanProcess)

lemma p_processes_unfold:
  "p_processes e fn m =
     fn (fst (exec e ps_command)) (parsed (snd (exec e ps_command)))
        (happens (ExecCallback (fst (exec e ps_command)) (snd (exec e ps_command)))
           (happens (ExecCall ps_command) m))"
  unfolding p_processes_def Let_def ps_command_join p_transformProcesses_parsed
  by (simp add: case_prod_beta)

subsection \<open>The process listing\<close>

text \<open>
  Claim C4. For every text of a process listing: a line contributes to the result exactly
  when its tokens (the line split on spaces, empty pieces dropped) are at least two and the
  token at index 1 is \<open>??\<close>; what it contributes is its token at index 0. A line with fewer
  than two tokens contributes nothing and raises nothing (the functions are total and the
  callback is called with the result), and the empty listing gives the empty result.
\<close>

theorem scan_matches_lines:
  "p_scanProcess result line =
     (if 2 \<le> length (tokens line) \<and> tokens line ! 1 = ''??''
      then result @ [tokens line ! 0] else result)
   \<and> p_transformProcesses fn err stdout m =
       fn err (map (\<lambda>line. tokens line ! 0)
                 (filter (\<lambda>line. 2 \<le> length (tokens line) \<and> tokens line ! 1 = ''??'')
                    (js_split stdout (CHR 0x0A)))) m
   \<and> p_transformProcesses fn err [] m = fn err [] m"
proof -
  have one: "p_scanProcess result line =
     (if 2 \<le> length (tokens line) \<and> tokens line ! 1 = ''??''
      then result @ [tokens line ! 0] else result)"
    using p_scanProcess_tokens [of result line] by (simp add: matches_def)
  have "matches = (\<lambda>line. 2 \<le> length (tokens line) \<and> tokens line ! 1 = ''??'')"
    by (rule ext) (simp add: matches_def)
  then have all: "p_transformProcesses fn err stdout m =
       fn err (map (\<lambda>line. tokens line ! 0)
                 (filter (\<lambda>line. 2 \<le> length (tokens line) \<and> tokens line ! 1 = ''??'')
                    (js_split stdout (CHR 0x0A)))) m"
    using p_transformProcesses_parsed [of fn err stdout m] by (simp add: parsed_def)
  have none: "p_transformProcesses fn err [] m = fn err [] m"
    by (simp add: p_transformProcesses_def js_split_def p_scanProcess_def js_index_def
        p_filterProcessItem_def)
  from one all none show ?thesis by blast
qed

subsection \<open>Killing the processes that the launch started\<close>

lemma kill_flag:
  "foldl (\<lambda>kill pid. if pid = processID then False else kill) k pids
     = (k \<and> processID \<notin> set pids)"
  by (induction pids arbitrary: k) auto

lemma p_killProcess_Some:
  "openProcesses m = Some baseline \<Longrightarrow>
   p_killProcess processID m =
     Inr (if processID \<notin> set baseline then happens (Spawn ''kill'' [processID]) m else m)"
  by (simp add: p_killProcess_def kill_flag)

lemma forEach_p_killProcess:
  "openProcesses m = Some baseline \<Longrightarrow>
   forEach p_killProcess result m =
     Inr (m\<lparr>trace := trace m @ map (\<lambda>pid. Spawn ''kill'' [pid])
                                  (filter (\<lambda>pid. pid \<notin> set baseline) result)\<rparr>)"
proof (induction result arbitrary: m)
  case Nil
  then show ?case by simp
next
  case (Cons pid result)
  show ?case
  proof (cases "pid \<in> set baseline")
    case True
    with Cons show ?thesis by (simp add: p_killProcess_Some)
  next
    case False
    have "openProcesses (happens (Spawn ''kill'' [pid]) m) = Some baseline"
      using Cons.prems by (simp add: happens_def)
    from Cons.IH [OF this] False Cons.prems show ?thesis
      by (simp add: p_killProcess_Some happens_def)
  qed
qed

lemma p_kill_Some:
  "openProcesses m = Some baseline \<Longrightarrow>
   p_kill err result m =
     Inr (m\<lparr>trace := trace m @ map (\<lambda>pid. Spawn ''kill'' [pid])
                                  (filter (\<lambda>pid. pid \<notin> set baseline) result),
            stderr_write := oldWriteErr m\<rparr>)"
  by (simp add: p_kill_def forEach_p_killProcess)

text \<open>
  Claim C1. For every baseline \<^verbatim>\<open>openProcesses\<close> and every list of enumerated process
  identifiers, \<^verbatim>\<open>_kill\<close> spawns \<^verbatim>\<open>kill\<close> exactly for the enumerated identifiers that are
  not in the baseline, in the order of the enumeration: an identifier of the baseline is
  never killed, every other enumerated identifier is, and the baseline is left as it was.
\<close>

theorem p_kill_terminates_difference:
  assumes "openProcesses m = Some baseline"
  shows "\<exists>m'. p_kill err result m = Inr m'
           \<and> added m m' = map (\<lambda>pid. Spawn ''kill'' [pid])
                            (filter (\<lambda>pid. pid \<notin> set baseline) result)
           \<and> (\<forall>pid. (Spawn ''kill'' [pid] \<in> set (added m m')) = (pid \<in> set result - set baseline))
           \<and> openProcesses m' = Some baseline"
  using assms by (auto simp: p_kill_Some added_def)

theorem p_kill_terminates_difference_witness:
  "openProcesses (driver0\<lparr>openProcesses := Some [''100'', ''200'']\<rparr>) = Some [''100'', ''200'']
   \<and> (\<exists>m'. p_kill None [''100'', ''200'', ''300''] (driver0\<lparr>openProcesses := Some [''100'', ''200'']\<rparr>)
              = Inr m'
          \<and> added (driver0\<lparr>openProcesses := Some [''100'', ''200'']\<rparr>) m' = [Spawn ''kill'' [''300'']])"
proof -
  have h: "openProcesses (driver0\<lparr>openProcesses := Some [''100'', ''200'']\<rparr>) = Some [''100'', ''200'']"
    by simp
  from p_kill_terminates_difference [OF h, of None "[''100'', ''200'', ''300'']"]
  show ?thesis using h by auto
qed

subsection \<open>The callbacks of the launch, one by one\<close>

lemma p_listProcesses_trace:
  "trace (p_listProcesses e err result m) =
     trace m @ [AppiumRunCall (run_args m (port m) (webhookPort m))]
       @ (case appium_run e (run_args m (port m) (webhookPort m)) of
            None \<Rightarrow> [] | Some s \<Rightarrow> [AppiumReady s, Resolve])"
  by (simp add: p_listProcesses_def p_suppressAppiumLogs_def p_loadAppiumArgs_def
      p_afterAppiumStarted_def p_reinstantiateLog_def happens_def run_args_def
      getPort_def getHost_def getWebhookPort_def Let_def split: option.splits)

lemma p_listProcesses_fields:
  "port (p_listProcesses e err result m) = port m"
  "webhookPort (p_listProcesses e err result m) = webhookPort m"
  "openProcesses (p_listProcesses e err result m) = Some result"
  "appiumArgs (p_listProcesses e err result m) = run_args m (port m) (webhookPort m)"
  "oldWrite (p_listProcesses e err result m) = stdout_write m"
  "oldWriteErr (p_listProcesses e err result m) = stderr_write m"
  "stderr_write (p_listProcesses e err result m) = WNoop (noops m)"
  "noops (p_listProcesses e err result m) = Suc (noops m)"
  by (simp_all add: p_listProcesses_def p_suppressAppiumLogs_def p_loadAppiumArgs_def
      p_afterAppiumStarted_def p_reinstantiateLog_def happens_def run_args_def
      getPort_def getHost_def getWebhookPort_def Let_def split: option.splits)

lemma p_listProcesses_outcome:
  "stdout_write (p_listProcesses e err result m) =
     (case appium_run e (run_args m (port m) (webhookPort m)) of
        None \<Rightarrow> WNoop (noops m) | Some s \<Rightarrow> stdout_write m)"
  "deferred (p_listProcesses e err result m) =
     (case appium_run e (run_args m (port m) (webhookPort m)) of
        None \<Rightarrow> deferred m | Some s \<Rightarrow> Some Fulfilled)"
  "appiumServer (p_listProcesses e err result m) =
     (case appium_run e (run_args m (port m) (webhookPort m)) of
        None \<Rightarrow> appiumServer m | Some s \<Rightarrow> Some s)"
  by (simp_all add: p_listProcesses_def p_suppressAppiumLogs_def p_loadAppiumArgs_def
      p_afterAppiumStarted_def p_reinstantiateLog_def happens_def run_args_def
      getPort_def getHost_def getWebhookPort_def Let_def split: option.splits)

lemmas launch_steps = p_launch_def p_processes_unfold p_listProcesses_trace
  p_listProcesses_fields p_listProcesses_outcome emit_def happens_def run_args_def Let_def
  switch_message_def switch_webhook_message_def

lemma p_launch_trace:
  "trace (p_launch e error prt m) =
     trace m @ (if webhookPort m \<noteq> prt then [switch_webhook_message prt] else [])
       @ [ExecCall ps_command, ExecCallback (fst (exec e ps_command)) (snd (exec e ps_command)),
          AppiumRunCall (run_args m (port m) prt)]
       @ (case appium_run e (run_args m (port m) prt) of
            None \<Rightarrow> [] | Some s \<Rightarrow> [AppiumReady s, Resolve])"
  by (simp add: launch_steps)

lemma p_launch_fields:
  "port (p_launch e error prt m) = port m"
  "webhookPort (p_launch e error prt m) = prt"
  "openProcesses (p_launch e error prt m) = Some (parsed (snd (exec e ps_command)))"
  "appiumArgs (p_launch e error prt m) = run_args m (port m) prt"
  "oldWrite (p_launch e error prt m) = stdout_write m"
  "oldWriteErr (p_launch e error prt m) = stderr_write m"
  "stderr_write (p_launch e error prt m) = WNoop (noops m)"
  "noops (p_launch e error prt m) = Suc (noops m)"
  by (simp_all add: launch_steps split: option.splits)

lemma p_launch_outcome:
  "stdout_write (p_launch e error prt m) =
     (case appium_run e (run_args m (port m) prt) of
        None \<Rightarrow> WNoop (noops m) | Some s \<Rightarrow> stdout_write m)"
  "deferred (p_launch e error prt m) =
     (case appium_run e (run_args m (port m) prt) of
        None \<Rightarrow> deferred m | Some s \<Rightarrow> Some Fulfilled)"
  "appiumServer (p_launch e error prt m) =
     (case appium_run e (run_args m (port m) prt) of
        None \<Rightarrow> appiumServer m | Some s \<Rightarrow> Some s)"
  by (simp_all add: launch_steps split: option.splits)

lemmas check_steps = p_checkPorts_def p_launch_trace p_launch_fields p_launch_outcome
  emit_def happens_def run_args_def Let_def case_prod_beta
  getWebhookPort_def getMaxWebhookPort_def getHost_def
  switch_message_def switch_webhook_message_def

lemma p_checkPorts_trace:
  "trace (p_checkPorts e error prt m) =
     trace m @ (if port m \<noteq> prt then [switch_message prt] else [])
       @ [PortScanCall (webhookPort m) (maxWebhookPort m) (host m),
          PortScanCallback (fst (findAPortNotInUse e (webhookPort m) (maxWebhookPort m) (host m)))
                           (snd (findAPortNotInUse e (webhookPort m) (maxWebhookPort m) (host m)))]
       @ (if webhookPort m \<noteq> snd (findAPortNotInUse e (webhookPort m) (maxWebhookPort m) (host m))
          then [switch_webhook_message
                  (snd (findAPortNotInUse e (webhookPort m) (maxWebhookPort m) (host m)))]
          else [])
       @ [ExecCall ps_command, ExecCallback (fst (exec e ps_command)) (snd (exec e ps_command)),
          AppiumRunCall (run_args m prt
            (snd (findAPortNotInUse e (webhookPort m) (maxWebhookPort m) (host m))))]
       @ (case appium_run e (run_args m prt
                 (snd (findAPortNotInUse e (webhookPort m) (maxWebhookPort m) (host m)))) of
            None \<Rightarrow> [] | Some s \<Rightarrow> [AppiumReady s, Resolve])"
  by (simp add: check_steps)

lemma p_checkPorts_fields:
  "port (p_checkPorts e error prt m) = prt"
  "webhookPort (p_checkPorts e error prt m) =
     snd (findAPortNotInUse e (webhookPort m) (maxWebhookPort m) (host m))"
  "openProcesses (p_checkPorts e error prt m) = Some (parsed (snd (exec e ps_command)))"
  "appiumArgs (p_checkPorts e error prt m) =
     run_args m prt (snd (findAPortNotInUse e (webhookPort m) (maxWebhookPort m) (host m)))"
  "oldWrite (p_checkPorts e error prt m) = stdout_write m"
  "oldWriteErr (p_checkPorts e error prt m) = stderr_write m"
  "stderr_write (p_checkPorts e error prt m) = WNoop (noops m)"
  "noops (p_checkPorts e error prt m) = Suc (noops m)"
  by (simp_all add: check_steps split: option.splits)

lemma p_checkPorts_outcome:
  "stdout_write (p_checkPorts e error prt m) =
     (case appium_run e (run_args m prt
             (snd (findAPortNotInUse e (webhookPort m) (maxWebhookPort m) (host m)))) of
        None \<Rightarrow> WNoop (noops m) | Some s \<Rightarrow> stdout_write m)"
  "deferred (p_checkPorts e error prt m) =
     (case appium_run e (run_args m prt
             (snd (findAPortNotInUse e (webhookPort m) (maxWebhookPort m) (host m)))) of
        None \<Rightarrow> deferred m | Some s \<Rightarrow> Some Fulfilled)"
  "appiumServer (p_checkPorts e error prt m) =
     (case appium_run e (run_args m prt
             (snd (findAPortNotInUse e (webhookPort m) (maxWebhookPort m) (host m)))) of
        None \<Rightarrow> appiumServer m | Some s \<Rightarrow> Some s)"
  by (simp_all add: check_steps split: option.splits)

lemma launch_prepared:
  "launch e cfgn cfg m =
     p_checkPorts e
       (fst (findAPortNotInUse e (port (prepared cfgn cfg m)) (maxPort (prepared cfgn cfg m))
               (host (prepared cfgn cfg m))))
       (snd (findAPortNotInUse e (port (prepared cfgn cfg m)) (maxPort (prepared cfgn cfg m))
               (host (prepared cfgn cfg m))))
       (happens (PortScanCallback
          (fst (findAPortNotInUse e (port (prepared cfgn cfg m)) (maxPort (prepared cfgn cfg m))
               (host (prepared cfgn cfg m))))
          (snd (findAPortNotInUse e (port (prepared cfgn cfg m)) (maxPort (prepared cfgn cfg m))
               (host (prepared cfgn cfg m)))))
         (happens (PortScanCall (port (prepared cfgn cfg m)) (maxPort (prepared cfgn cfg m))
               (host (prepared cfgn cfg m))) (prepared cfgn cfg m)))"
  by (simp add: launch_def prepared_def Let_def case_prod_beta getPort_def getMaxPort_def
      getHost_def split: browsers_value.splits)

subsection \<open>The user defined ports leave the rest of the driver alone\<close>

lemma p_checkAppiumPorts_frame:
  "stdout_write (p_checkAppiumPorts b m) = stdout_write m"
  "stderr_write (p_checkAppiumPorts b m) = stderr_write m"
  "noops (p_checkAppiumPorts b m) = noops m"
  "host (p_checkAppiumPorts b m) = host m"
  "deferred (p_checkAppiumPorts b m) = deferred m"
  "appiumArgs (p_checkAppiumPorts b m) = appiumArgs m"
  "webhookPort (p_checkAppiumPorts b m) = webhookPort m"
  "maxWebhookPort (p_checkAppiumPorts b m) = maxWebhookPort m"
  by (simp_all add: p_checkAppiumPorts_def emit_def Let_def split: option.splits list.splits)

lemma p_checkWebhookPorts_frame:
  "stdout_write (p_checkWebhookPorts b m) = stdout_write m"
  "stderr_write (p_checkWebhookPorts b m) = stderr_write m"
  "noops (p_checkWebhookPorts b m) = noops m"
  "host (p_checkWebhookPorts b m) = host m"
  "deferred (p_checkWebhookPorts b m) = deferred m"
  "appiumArgs (p_checkWebhookPorts b m) = appiumArgs m"
  "port (p_checkWebhookPorts b m) = port m"
  "maxPort (p_checkWebhookPorts b m) = maxPort m"
  by (simp_all add: p_checkWebhookPorts_def emit_def Let_def split: option.splits list.splits)

lemma p_checkAppiumPorts_emits:
  "\<exists>ems. trace (p_checkAppiumPorts b m) = trace m @ ems \<and> list_all is_emit ems"
  by (simp add: p_checkAppiumPorts_def emit_def Let_def split: option.splits list.splits)

lemma p_checkWebhookPorts_emits:
  "\<exists>ems. trace (p_checkWebhookPorts b m) = trace m @ ems \<and> list_all is_emit ems"
  by (simp add: p_checkWebhookPorts_def emit_def Let_def split: option.splits list.splits)

lemma is_pair_cases: "\<not> is_pair r \<Longrightarrow> (case r of Some [r0, r1] \<Rightarrow> f r0 r1 | _ \<Rightarrow> g) = g"
  by (cases r rule: is_pair.cases) simp_all

lemma p_checkAppiumPorts_nothing:
  "overrides_nothing b \<Longrightarrow> p_checkAppiumPorts b m = m"
  by (cases "ios b") (simp_all add: overrides_nothing_def p_checkAppiumPorts_def is_pair_cases)

lemma p_checkWebhookPorts_nothing:
  "overrides_nothing b \<Longrightarrow> p_checkWebhookPorts b m = m"
  by (cases "ios b") (simp_all add: overrides_nothing_def p_checkWebhookPorts_def is_pair_cases)

lemma p_checkUserDefinedPorts_frame:
  "stdout_write (p_checkUserDefinedPorts b m) = stdout_write m"
  "stderr_write (p_checkUserDefinedPorts b m) = stderr_write m"
  "noops (p_checkUserDefinedPorts b m) = noops m"
  "host (p_checkUserDefinedPorts b m) = host m"
  "deferred (p_checkUserDefinedPorts b m) = deferred m"
  "appiumArgs (p_checkUserDefinedPorts b m) = appiumArgs m"
  by (simp_all add: p_checkUserDefinedPorts_def p_checkAppiumPorts_frame
      p_checkWebhookPorts_frame)

lemma p_checkUserDefinedPorts_emits:
  "\<exists>ems. trace (p_checkUserDefinedPorts b m) = trace m @ ems \<and> list_all is_emit ems"
proof -
  obtain ems1 where one: "trace (p_checkAppiumPorts b m) = trace m @ ems1"
    "list_all is_emit ems1"
    using p_checkAppiumPorts_emits by blast
  obtain ems2 where two:
    "trace (p_checkWebhookPorts b (p_checkAppiumPorts b m))
       = trace (p_checkAppiumPorts b m) @ ems2" "list_all is_emit ems2"
    using p_checkWebhookPorts_emits by blast
  from one two have
    "trace (p_checkUserDefinedPorts b m) = trace m @ (ems1 @ ems2)
       \<and> list_all is_emit (ems1 @ ems2)"
    by (simp add: p_checkUserDefinedPorts_def)
  then show ?thesis by blast
qed

lemma p_checkUserDefinedPorts_nothing:
  "overrides_nothing b \<Longrightarrow> p_checkUserDefinedPorts b m = m"
  by (simp add: p_checkUserDefinedPorts_def p_checkAppiumPorts_nothing
      p_checkWebhookPorts_nothing)

lemma foldl_user_ports_frame:
  "stdout_write (foldl (\<lambda>m b. p_checkUserDefinedPorts b m) m bs) = stdout_write m"
  "stderr_write (foldl (\<lambda>m b. p_checkUserDefinedPorts b m) m bs) = stderr_write m"
  "noops (foldl (\<lambda>m b. p_checkUserDefinedPorts b m) m bs) = noops m"
  "host (foldl (\<lambda>m b. p_checkUserDefinedPorts b m) m bs) = host m"
  "deferred (foldl (\<lambda>m b. p_checkUserDefinedPorts b m) m bs) = deferred m"
  "appiumArgs (foldl (\<lambda>m b. p_checkUserDefinedPorts b m) m bs) = appiumArgs m"
  by (induction bs arbitrary: m; simp add: p_checkUserDefinedPorts_frame)+

lemma foldl_user_ports_emits:
  "\<exists>ems. trace (foldl (\<lambda>m b. p_checkUserDefinedPorts b m) m bs) = trace m @ ems
          \<and> list_all is_emit ems"
proof (induction bs arbitrary: m)
  case Nil
  then show ?case by simp
next
  case (Cons b bs)
  obtain ems1 where one: "trace (p_checkUserDefinedPorts b m) = trace m @ ems1"
    "list_all is_emit ems1"
    using p_checkUserDefinedPorts_emits by blast
  obtain ems2 where two:
    "trace (foldl (\<lambda>m b. p_checkUserDefinedPorts b m) (p_checkUserDefinedPorts b m) bs)
       = trace (p_checkUserDefinedPorts b m) @ ems2" "list_all is_emit ems2"
    using Cons.IH by blast
  from one two have
    "trace (foldl (\<lambda>m b. p_checkUserDefinedPorts b m) m (b # bs)) = trace m @ (ems1 @ ems2)
       \<and> list_all is_emit (ems1 @ ems2)"
    by simp
  then show ?case by blast
qed

lemma foldl_user_ports_nothing:
  "list_all overrides_nothing bs \<Longrightarrow> foldl (\<lambda>m b. p_checkUserDefinedPorts b m) m bs = m"
  by (induction bs arbitrary: m) (simp_all add: p_checkUserDefinedPorts_nothing)

lemma prepared_frame:
  "stdout_write (prepared cfgn cfg m) = stdout_write m"
  "stderr_write (prepared cfgn cfg m) = stderr_write m"
  "noops (prepared cfgn cfg m) = noops m"
  "host (prepared cfgn cfg m) = host m"
  "deferred (prepared cfgn cfg m) = Some Pending"
  by (simp_all add: prepared_def Let_def foldl_user_ports_frame split: browsers_value.splits)

lemma prepared_emits:
  "\<exists>ems. trace (prepared cfgn cfg m) = trace m @ ems \<and> list_all is_emit ems"
proof (cases "cfg_browsers cfg")
  case (BrowsersArray bs)
  show ?thesis
    using
      foldl_user_ports_emits [of "m\<lparr>deferred := Some Pending, configuration := cfgn,
        config := Some cfg, longName := js_replace (longName m) ''iPhone'' ''iPad'',
        appiumArgs := appiumArgs m\<lparr>arg_forceIpad := True\<rparr>\<rparr>" bs]
      foldl_user_ports_emits [of "m\<lparr>deferred := Some Pending, configuration := cfgn,
        config := Some cfg\<rparr>" bs]
    by (simp add: prepared_def Let_def BrowsersArray)
qed (simp_all add: prepared_def Let_def)

lemma prepared_no_override:
  assumes "no_port_override cfg"
  shows "port (prepared cfgn cfg m) = port m" "maxPort (prepared cfgn cfg m) = maxPort m"
    "webhookPort (prepared cfgn cfg m) = webhookPort m"
    "maxWebhookPort (prepared cfgn cfg m) = maxWebhookPort m"
    "trace (prepared cfgn cfg m) = trace m"
  using assms
  by (simp_all add: prepared_def Let_def no_port_override_def foldl_user_ports_nothing
      split: browsers_value.splits)

lemma filter_no_emit: "list_all is_emit ems \<Longrightarrow> filter (\<lambda>e. \<not> is_emit e) ems = []"
  by (induction ems) simp_all

subsection \<open>The whole launch\<close>

lemma launch_trace:
  fixes e cfgn cfg m
  defines "m1 \<equiv> prepared cfgn cfg m"
  defines "r1 \<equiv> findAPortNotInUse e (port m1) (maxPort m1) (host m1)"
  defines "r2 \<equiv> findAPortNotInUse e (webhookPort m1) (maxWebhookPort m1) (host m1)"
  defines "x \<equiv> exec e ps_command"
  defines "args \<equiv> run_args m1 (snd r1) (snd r2)"
  shows "trace (launch e cfgn cfg m) =
     trace m1
       @ [PortScanCall (port m1) (maxPort m1) (host m1), PortScanCallback (fst r1) (snd r1)]
       @ (if port m1 \<noteq> snd r1 then [switch_message (snd r1)] else [])
       @ [PortScanCall (webhookPort m1) (maxWebhookPort m1) (host m1),
          PortScanCallback (fst r2) (snd r2)]
       @ (if webhookPort m1 \<noteq> snd r2 then [switch_webhook_message (snd r2)] else [])
       @ [ExecCall ps_command, ExecCallback (fst x) (snd x), AppiumRunCall args]
       @ (case appium_run e args of None \<Rightarrow> [] | Some s \<Rightarrow> [AppiumReady s, Resolve])"
  unfolding launch_prepared p_checkPorts_trace m1_def r1_def r2_def x_def args_def
  by (simp add: happens_def run_args_def)

lemma launch_fields:
  fixes e cfgn cfg m
  defines "m1 \<equiv> prepared cfgn cfg m"
  defines "r1 \<equiv> findAPortNotInUse e (port m1) (maxPort m1) (host m1)"
  defines "r2 \<equiv> findAPortNotInUse e (webhookPort m1) (maxWebhookPort m1) (host m1)"
  shows "port (launch e cfgn cfg m) = snd r1"
    "webhookPort (launch e cfgn cfg m) = snd r2"
    "openProcesses (launch e cfgn cfg m) = Some (parsed (snd (exec e ps_command)))"
    "appiumArgs (launch e cfgn cfg m) = run_args m1 (snd r1) (snd r2)"
    "oldWrite (launch e cfgn cfg m) = stdout_write m"
    "oldWriteErr (launch e cfgn cfg m) = stderr_write m"
    "stderr_write (launch e cfgn cfg m) = WNoop (noops m)"
    "noops (launch e cfgn cfg m) = Suc (noops m)"
  unfolding launch_prepared p_checkPorts_fields m1_def r1_def r2_def
  by (simp_all add: happens_def run_args_def prepared_frame)

lemma launch_outcome:
  fixes e cfgn cfg m
  defines "m1 \<equiv> prepared cfgn cfg m"
  defines "r1 \<equiv> findAPortNotInUse e (port m1) (maxPort m1) (host m1)"
  defines "r2 \<equiv> findAPortNotInUse e (webhookPort m1) (maxWebhookPort m1) (host m1)"
  defines "args \<equiv> run_args m1 (snd r1) (snd r2)"
  shows "stdout_write (launch e cfgn cfg m) =
           (case appium_run e args of None \<Rightarrow> WNoop (noops m) | Some s \<Rightarrow> stdout_write m)"
    "deferred (launch e cfgn cfg m) =
           (case appium_run e args of None \<Rightarrow> Some Pending | Some s \<Rightarrow> Some Fulfilled)"
    "appiumServer (launch e cfgn cfg m) =
           (case appium_run e args of None \<Rightarrow> appiumServer m1 | Some s \<Rightarrow> Some s)"
  unfolding launch_prepared p_checkPorts_outcome m1_def r1_def r2_def args_def
  by (simp_all add: happens_def run_args_def prepared_frame split: option.splits)

lemma kill_Some:
  assumes "appiumServer m = Some server" "openProcesses m = Some baseline"
  shows "kill e m =
     Inr (m\<lparr>trace := trace m
                 @ [WebSocketServerClose server, RestListenClose server, SetTimeout 1000,
                    TimeoutFired, ExecCall ps_command,
                    ExecCallback (fst (exec e ps_command)) (snd (exec e ps_command))]
                 @ map (\<lambda>pid. Spawn ''kill'' [pid])
                     (filter (\<lambda>pid. pid \<notin> set baseline) (parsed (snd (exec e ps_command)))),
            stderr_write := oldWriteErr m\<rparr>)"
proof -
  let ?m = "happens (ExecCallback (fst (exec e ps_command)) (snd (exec e ps_command)))
     (happens (ExecCall ps_command) (happens TimeoutFired (happens (SetTimeout 1000)
       (happens (RestListenClose server) (happens (WebSocketServerClose server) m)))))"
  have "openProcesses ?m = Some baseline"
    using assms(2) by (simp add: happens_def)
  from p_kill_Some [OF this] assms(1) show ?thesis
    by (simp add: kill_def Let_def p_processes_unfold happens_def)
qed

lemma launch_interactions:
  fixes e cfgn cfg m
  defines "m1 \<equiv> prepared cfgn cfg m"
  defines "r1 \<equiv> findAPortNotInUse e (port m1) (maxPort m1) (host m1)"
  defines "r2 \<equiv> findAPortNotInUse e (webhookPort m1) (maxWebhookPort m1) (host m1)"
  defines "x \<equiv> exec e ps_command"
  defines "args \<equiv> run_args m1 (snd r1) (snd r2)"
  shows "interactions m (launch e cfgn cfg m) =
       [PortScanCall (port m1) (maxPort m1) (host m1), PortScanCallback (fst r1) (snd r1),
        PortScanCall (webhookPort m1) (maxWebhookPort m1) (host m1),
        PortScanCallback (fst r2) (snd r2),
        ExecCall ps_command, ExecCallback (fst x) (snd x),
        AppiumRunCall args]
       @ (case appium_run e args of None \<Rightarrow> [] | Some s \<Rightarrow> [AppiumReady s, Resolve])"
proof -
  obtain ems where ems: "trace m1 = trace m @ ems" "list_all is_emit ems"
    unfolding m1_def using prepared_emits by blast
  show ?thesis
    unfolding interactions_def added_def launch_trace
    unfolding m1_def [symmetric] r1_def [symmetric] r2_def [symmetric] x_def [symmetric]
      args_def [symmetric]
    using ems
    by (simp add: filter_no_emit switch_message_def switch_webhook_message_def
        split: option.splits)
qed

lemma launch_exec_callback:
  "ExecCallback (fst (exec e ps_command)) (snd (exec e ps_command))
     \<in> set (interactions m (launch e cfgn cfg m))"
  by (simp add: launch_interactions)

lemma launch_starts_server: "server_start_invoked m (launch e cfgn cfg m)"
proof -
  obtain ems where "trace (prepared cfgn cfg m) = trace m @ ems"
    using prepared_emits by blast
  then show ?thesis
    unfolding server_start_invoked_def added_def launch_trace
    by (simp add: switch_message_def switch_webhook_message_def)
qed

lemma launch_not_rejected: "deferred (launch e cfgn cfg m) \<noteq> Some (Rejected reason)"
  by (simp add: launch_outcome split: option.splits)

subsection \<open>What the user defined ports set\<close>

lemma p_checkAppiumPorts_port:
  assumes "ios b = Some i" "ios_port i = Some p" "p \<noteq> 0" "\<not> is_pair (ios_portRange i)"
  shows "port (p_checkAppiumPorts b m) = p" "maxPort (p_checkAppiumPorts b m) = Some (p + 90)"
    "trace (p_checkAppiumPorts b m) = trace m @ [user_port_message p]"
  using assms
  by (simp_all add: p_checkAppiumPorts_def is_pair_cases emit_def Let_def parseInt_def
      user_port_message_def)

lemma p_checkAppiumPorts_range:
  assumes "ios b = Some i" "ios_portRange i = Some [lo, hi]"
  shows "port (p_checkAppiumPorts b m) = lo" "maxPort (p_checkAppiumPorts b m) = Some hi"
    "last (trace (p_checkAppiumPorts b m)) = user_range_message lo hi"
  using assms
  by (simp_all add: p_checkAppiumPorts_def emit_def Let_def parseInt_def
      user_range_message_def)

lemma p_checkAppiumPorts_both:
  assumes "ios b = Some i" "ios_port i = Some p" "p \<noteq> 0" "ios_portRange i = Some [lo, hi]"
  shows "trace (p_checkAppiumPorts b m) = trace m @ [user_port_message p, user_range_message lo hi]"
  using assms
  by (simp add: p_checkAppiumPorts_def emit_def Let_def parseInt_def
      user_range_message_def user_port_message_def)

lemma p_checkWebhookPorts_port:
  assumes "ios b = Some i" "ios_webhookPort i = Some p" "p \<noteq> 0"
    "\<not> is_pair (ios_webhookPortRange i)"
  shows "webhookPort (p_checkWebhookPorts b m) = p"
    "maxWebhookPort (p_checkWebhookPorts b m) = Some (p + 90)"
    "trace (p_checkWebhookPorts b m) = trace m @ [user_webhook_port_message p]"
  using assms
  by (simp_all add: p_checkWebhookPorts_def is_pair_cases emit_def Let_def parseInt_def
      user_webhook_port_message_def)

lemma p_checkWebhookPorts_range:
  assumes "ios b = Some i" "ios_webhookPortRange i = Some [lo, hi]"
  shows "webhookPort (p_checkWebhookPorts b m) = lo"
    "maxWebhookPort (p_checkWebhookPorts b m) = Some hi"
    "last (trace (p_checkWebhookPorts b m)) = user_webhook_range_message lo hi"
  using assms
  by (simp_all add: p_checkWebhookPorts_def emit_def Let_def parseInt_def
      user_webhook_range_message_def)

lemma p_checkWebhookPorts_both:
  assumes "ios b = Some i" "ios_webhookPort i = Some p" "p \<noteq> 0"
    "ios_webhookPortRange i = Some [lo, hi]"
  shows "trace (p_checkWebhookPorts b m)
           = trace m @ [user_webhook_port_message p, user_webhook_range_message lo hi]"
  using assms
  by (simp add: p_checkWebhookPorts_def emit_def Let_def parseInt_def
      user_webhook_range_message_def user_webhook_port_message_def)

lemma p_checkAppiumPorts_indep:
  assumes "port m0 = port m" "maxPort m0 = maxPort m" "trace m0 = trace m"
  shows "port (p_checkAppiumPorts b m0) = port (p_checkAppiumPorts b m)
    \<and> maxPort (p_checkAppiumPorts b m0) = maxPort (p_checkAppiumPorts b m)
    \<and> trace (p_checkAppiumPorts b m0) = trace (p_checkAppiumPorts b m)"
proof (cases "ios b")
  case None
  with assms show ?thesis by (simp add: p_checkAppiumPorts_def)
next
  case (Some i)
  show ?thesis
    using assms Some
    by (cases "ios_portRange i" rule: is_pair.cases)
       (simp_all add: p_checkAppiumPorts_def emit_def Let_def)
qed

lemma p_checkWebhookPorts_indep:
  assumes "webhookPort m0 = webhookPort m" "maxWebhookPort m0 = maxWebhookPort m"
    "trace m0 = trace m"
  shows "webhookPort (p_checkWebhookPorts b m0) = webhookPort (p_checkWebhookPorts b m)
    \<and> maxWebhookPort (p_checkWebhookPorts b m0) = maxWebhookPort (p_checkWebhookPorts b m)
    \<and> trace (p_checkWebhookPorts b m0) = trace (p_checkWebhookPorts b m)"
proof (cases "ios b")
  case None
  with assms show ?thesis by (simp add: p_checkWebhookPorts_def)
next
  case (Some i)
  show ?thesis
    using assms Some
    by (cases "ios_webhookPortRange i" rule: is_pair.cases)
       (simp_all add: p_checkWebhookPorts_def emit_def Let_def)
qed

lemma p_checkUserDefinedPorts_indep:
  assumes "port m0 = port m" "maxPort m0 = maxPort m" "webhookPort m0 = webhookPort m"
    "maxWebhookPort m0 = maxWebhookPort m" "trace m0 = trace m"
  shows "port (p_checkUserDefinedPorts b m0) = port (p_checkUserDefinedPorts b m)"
    "maxPort (p_checkUserDefinedPorts b m0) = maxPort (p_checkUserDefinedPorts b m)"
    "webhookPort (p_checkUserDefinedPorts b m0) = webhookPort (p_checkUserDefinedPorts b m)"
    "maxWebhookPort (p_checkUserDefinedPorts b m0) = maxWebhookPort (p_checkUserDefinedPorts b m)"
    "trace (p_checkUserDefinedPorts b m0) = trace (p_checkUserDefinedPorts b m)"
proof -
  note a = p_checkAppiumPorts_indep [OF assms(1,2,5), of b]
  have w: "webhookPort (p_checkAppiumPorts b m0) = webhookPort (p_checkAppiumPorts b m)"
    "maxWebhookPort (p_checkAppiumPorts b m0) = maxWebhookPort (p_checkAppiumPorts b m)"
    using assms by (simp_all add: p_checkAppiumPorts_frame)
  from a have t: "trace (p_checkAppiumPorts b m0) = trace (p_checkAppiumPorts b m)"
    by simp
  note ww = p_checkWebhookPorts_indep [OF w t, of b]
  show "port (p_checkUserDefinedPorts b m0) = port (p_checkUserDefinedPorts b m)"
    "maxPort (p_checkUserDefinedPorts b m0) = maxPort (p_checkUserDefinedPorts b m)"
    "webhookPort (p_checkUserDefinedPorts b m0) = webhookPort (p_checkUserDefinedPorts b m)"
    "maxWebhookPort (p_checkUserDefinedPorts b m0) = maxWebhookPort (p_checkUserDefinedPorts b m)"
    "trace (p_checkUserDefinedPorts b m0) = trace (p_checkUserDefinedPorts b m)"
    using a ww by (simp_all add: p_checkUserDefinedPorts_def p_checkWebhookPorts_frame)
qed

lemma prepared_single:
  assumes "cfg_browsers cfg = BrowsersArray [b]"
  shows "port (prepared cfgn cfg m) = port (p_checkUserDefinedPorts b m)"
    "maxPort (prepared cfgn cfg m) = maxPort (p_checkUserDefinedPorts b m)"
    "webhookPort (prepared cfgn cfg m) = webhookPort (p_checkUserDefinedPorts b m)"
    "maxWebhookPort (prepared cfgn cfg m) = maxWebhookPort (p_checkUserDefinedPorts b m)"
    "trace (prepared cfgn cfg m) = trace (p_checkUserDefinedPorts b m)"
proof -
  let ?a = "m\<lparr>deferred := Some Pending, configuration := cfgn, config := Some cfg\<rparr>"
  let ?b = "m\<lparr>deferred := Some Pending, configuration := cfgn, config := Some cfg,
              longName := js_replace (longName m) ''iPhone'' ''iPad'',
              appiumArgs := (appiumArgs m)\<lparr>arg_forceIpad := True\<rparr>\<rparr>"
  have "prepared cfgn cfg m = p_checkUserDefinedPorts b ?a
      \<or> prepared cfgn cfg m = p_checkUserDefinedPorts b ?b"
    using assms by (simp add: prepared_def Let_def)
  moreover note p_checkUserDefinedPorts_indep [of ?a m b] p_checkUserDefinedPorts_indep [of ?b m b]
  ultimately show "port (prepared cfgn cfg m) = port (p_checkUserDefinedPorts b m)"
    "maxPort (prepared cfgn cfg m) = maxPort (p_checkUserDefinedPorts b m)"
    "webhookPort (prepared cfgn cfg m) = webhookPort (p_checkUserDefinedPorts b m)"
    "maxWebhookPort (prepared cfgn cfg m) = maxWebhookPort (p_checkUserDefinedPorts b m)"
    "trace (prepared cfgn cfg m) = trace (p_checkUserDefinedPorts b m)"
    by auto
qed

section \<open>The claims about the launch and the teardown\<close>

text \<open>
  Claim C7. In every launch the negotiation of the control port is called and has called
  back before the negotiation of the webhook port is called, which has called back before
  the processes are listed, and the listing has called back before the external server is
  started. In every teardown of a launched driver the two stop calls on the server handle
  come before the timer of 1000 ms is set, the timer fires before the processes are listed
  again, and the kills follow the listing.
\<close>

theorem launch_and_kill_order:
  fixes e cfgn cfg m
  defines "m1 \<equiv> prepared cfgn cfg m"
  defines "r1 \<equiv> findAPortNotInUse e (port m1) (maxPort m1) (host m1)"
  defines "r2 \<equiv> findAPortNotInUse e (webhookPort m1) (maxWebhookPort m1) (host m1)"
  defines "x \<equiv> exec e ps_command"
  defines "args \<equiv> run_args m1 (snd r1) (snd r2)"
  shows "interactions m (launch e cfgn cfg m) =
       [PortScanCall (port m1) (maxPort m1) (host m1), PortScanCallback (fst r1) (snd r1),
        PortScanCall (webhookPort m1) (maxWebhookPort m1) (host m1),
        PortScanCallback (fst r2) (snd r2),
        ExecCall ps_command, ExecCallback (fst x) (snd x),
        AppiumRunCall args]
       @ (case appium_run e args of None \<Rightarrow> [] | Some s \<Rightarrow> [AppiumReady s, Resolve])
     \<and> (appiumServer d = Some server \<and> openProcesses d = Some baseline \<longrightarrow>
          (\<exists>d'. kill e' d = Inr d' \<and>
             added d d' =
               [WebSocketServerClose server, RestListenClose server, SetTimeout 1000,
                TimeoutFired, ExecCall ps_command,
                ExecCallback (fst (exec e' ps_command)) (snd (exec e' ps_command))]
               @ map (\<lambda>pid. Spawn ''kill'' [pid])
                   (filter (\<lambda>pid. pid \<notin> set baseline) (parsed (snd (exec e' ps_command))))))"
proof -
  have "\<exists>d'. kill e' d = Inr d' \<and>
             added d d' =
               [WebSocketServerClose server, RestListenClose server, SetTimeout 1000,
                TimeoutFired, ExecCall ps_command,
                ExecCallback (fst (exec e' ps_command)) (snd (exec e' ps_command))]
               @ map (\<lambda>pid. Spawn ''kill'' [pid])
                   (filter (\<lambda>pid. pid \<notin> set baseline) (parsed (snd (exec e' ps_command))))"
    if "appiumServer d = Some server" "openProcesses d = Some baseline"
    using kill_Some [OF that, of e'] by (simp add: added_def)
  then show ?thesis
    unfolding m1_def r1_def r2_def x_def args_def launch_interactions by blast
qed

theorem launch_and_kill_order_witness:
  "appiumServer driver1 = Some (AppiumServer 1)
   \<and> openProcesses driver1 = Some [''100'', ''200'', ''300'']
   \<and> (\<exists>d'. kill env_later driver1 = Inr d' \<and>
         added driver1 d' =
           [WebSocketServerClose (AppiumServer 1), RestListenClose (AppiumServer 1),
            SetTimeout 1000, TimeoutFired, ExecCall ps_command, ExecCallback None listing1,
            Spawn ''kill'' [''400'']])"
proof -
  have l0: "parsed listing0 = [''100'', ''200'', ''300'']" by code_simp
  have l1: "parsed listing1 = [''100'', ''200'', ''300'', ''400'']" by code_simp
  have h: "appiumServer driver1 = Some (AppiumServer 1)"
    "openProcesses driver1 = Some [''100'', ''200'', ''300'']"
    by (simp_all add: driver1_def launch_outcome launch_fields env_ok_def l0)
  from launch_and_kill_order [where d = driver1 and server = "AppiumServer 1"
      and baseline = "[''100'', ''200'', ''300'']" and e' = env_later]
    h l1
  show ?thesis by (simp add: env_later_def)
qed

text \<open>
  Claim C5. For every launch: the control port the driver stores after the launch is the
  port the negotiator returned, and so is the webhook port; the log messages emitted after
  the user defined ports are applied are one \<open>Switching to port: N\<close> when the negotiated
  control port \<open>N\<close> differs from the configured one and none when it is equal, followed
  in the same way by one \<open>Switching to webhook port: N\<close> or none; and the one call of the
  server start gets the negotiated control port and \<open>host:webhook port\<close> as its arguments.
\<close>

theorem negotiated_ports_logged:
  fixes e cfgn cfg m
  defines "m1 \<equiv> prepared cfgn cfg m"
  defines "r1 \<equiv> findAPortNotInUse e (port m1) (maxPort m1) (host m1)"
  defines "r2 \<equiv> findAPortNotInUse e (webhookPort m1) (maxWebhookPort m1) (host m1)"
  defines "m' \<equiv> launch e cfgn cfg m"
  shows "port m' = snd r1 \<and> webhookPort m' = snd r2
     \<and> filter is_emit (added m1 m') =
         (if port m1 = snd r1 then [] else [switch_message (snd r1)])
         @ (if webhookPort m1 = snd r2 then [] else [switch_webhook_message (snd r2)])
     \<and> filter is_run (added m1 m') = [AppiumRunCall (run_args m1 (snd r1) (snd r2))]
     \<and> arg_port (run_args m1 (snd r1) (snd r2)) = Some (snd r1)
     \<and> arg_webhook (run_args m1 (snd r1) (snd r2))
         = Some (host m1 @ '':'' @ js_string_of_int (snd r2))"
proof -
  have ports: "port m' = snd r1" "webhookPort m' = snd r2"
    unfolding m'_def r1_def r2_def m1_def by (simp_all add: launch_fields)
  have emits: "filter is_emit (added m1 m') =
         (if port m1 = snd r1 then [] else [switch_message (snd r1)])
         @ (if webhookPort m1 = snd r2 then [] else [switch_webhook_message (snd r2)])"
    unfolding added_def m'_def launch_trace
    unfolding m1_def [symmetric] r1_def [symmetric] r2_def [symmetric]
    by (simp add: switch_message_def switch_webhook_message_def split: option.splits)
  have run: "filter is_run (added m1 m') = [AppiumRunCall (run_args m1 (snd r1) (snd r2))]"
    unfolding added_def m'_def launch_trace
    unfolding m1_def [symmetric] r1_def [symmetric] r2_def [symmetric]
    by (simp add: switch_message_def switch_webhook_message_def split: option.splits)
  have args: "arg_port (run_args m1 (snd r1) (snd r2)) = Some (snd r1)"
    "arg_webhook (run_args m1 (snd r1) (snd r2))
         = Some (host m1 @ '':'' @ js_string_of_int (snd r2))"
    by (simp_all add: run_args_def)
  from ports emits run args show ?thesis by blast
qed

theorem negotiated_ports_logged_witness:
  "port (launch env_busy None config0 driver0) = 4724
   \<and> webhookPort (launch env_busy None config0 driver0) = 9003
   \<and> filter is_emit (trace (launch env_busy None config0 driver0)) =
       [Emit ''report:log:system'' ''dalek-browser-ios: Switching to port: 4724'']
   \<and> arg_port (appiumArgs (launch env_busy None config0 driver0)) = Some 4724
   \<and> arg_webhook (appiumArgs (launch env_busy None config0 driver0)) = Some ''localhost:9003''"
proof -
  have no: "no_port_override config0"
    by (simp add: no_port_override_def config0_def)
  have s: "js_string_of_int 4724 = ''4724''" "js_string_of_int 9003 = ''9003''"
    by (simp_all add: js_string_of_int_def digits.simps digit_char_def)
  have p: "port (prepared None config0 driver0) = 4723"
    "maxPort (prepared None config0 driver0) = None"
    "webhookPort (prepared None config0 driver0) = 9003"
    "maxWebhookPort (prepared None config0 driver0) = None"
    "trace (prepared None config0 driver0) = []"
    "host (prepared None config0 driver0) = ''localhost''"
    by (simp_all add: prepared_no_override [OF no] prepared_frame driver0_def IosDriver_def)
  from negotiated_ports_logged [of env_busy None config0 driver0] p s
  show ?thesis
    by (simp add: env_busy_def added_def switch_message_def launch_fields run_args_def)
qed

text \<open>
  Claim C9. The driver as exported has no maximum port and no maximum webhook port:
  \<^verbatim>\<open>getMaxPort()\<close> and \<^verbatim>\<open>getMaxWebhookPort()\<close> return \<^verbatim>\<open>undefined\<close>. When the user's
  configuration overrides no port, a launch of that driver calls the port scanner twice,
  for 4723 and for 9003, each time with an undefined maximum.
\<close>

theorem no_override_no_maximum:
  "getMaxPort (IosDriver out err) = None \<and> getMaxWebhookPort (IosDriver out err) = None
   \<and> (no_port_override cfg \<longrightarrow>
        filter is_scan_call (trace (launch e cfgn cfg (IosDriver out err))) =
          [PortScanCall 4723 None ''localhost'', PortScanCall 9003 None ''localhost''])"
proof -
  have undefined: "getMaxPort (IosDriver out err) = None"
    "getMaxWebhookPort (IosDriver out err) = None"
    by (simp_all add: getMaxPort_def getMaxWebhookPort_def IosDriver_def)
  have "filter is_scan_call (trace (launch e cfgn cfg (IosDriver out err))) =
          [PortScanCall 4723 None ''localhost'', PortScanCall 9003 None ''localhost'']"
    if "no_port_override cfg"
    unfolding launch_trace prepared_no_override [OF that] prepared_frame
    by (simp add: IosDriver_def switch_message_def switch_webhook_message_def
        split: option.splits)
  with undefined show ?thesis by blast
qed

theorem no_override_no_maximum_witness:
  "no_port_override config0
   \<and> filter is_scan_call (trace (launch env_busy None config0 driver0)) =
       [PortScanCall 4723 None ''localhost'', PortScanCall 9003 None ''localhost'']"
proof -
  have no: "no_port_override config0"
    by (simp add: no_port_override_def config0_def)
  from no_override_no_maximum [of "WNative ''stdout.write''" "WNative ''stderr.write''" config0
      env_busy None] no
  show ?thesis by (simp add: driver0_def)
qed

text \<open>
  Claim C2, as the specification states it, fails: in the run below the listing of the
  processes yields an error, and the launch goes on, starts the external server and
  fulfils its promise.
\<close>

theorem listing_error_counterexample:
  "fst (exec env_ps_error ps_command) = Some (ExecError 127)
   \<and> server_start_invoked driver0 (launch env_ps_error None config0 driver0)
   \<and> deferred (launch env_ps_error None config0 driver0) = Some Fulfilled"
  by (simp add: launch_starts_server launch_outcome env_ps_error_def)

text \<open>
  Claim C2, amended. If the listing of the processes during the launch yields an error,
  the error reaches the callback and is ignored: the launch is not aborted and its promise
  is not rejected, the text of the listing is parsed as always and stored as the baseline,
  and the start of the external server is invoked.
\<close>

theorem listing_error_ignored:
  assumes "fst (exec e ps_command) = Some err"
  shows "server_start_invoked m (launch e cfgn cfg m)
     \<and> deferred (launch e cfgn cfg m) \<noteq> Some (Rejected reason)
     \<and> openProcesses (launch e cfgn cfg m) = Some (parsed (snd (exec e ps_command)))
     \<and> ExecCallback (Some err) (snd (exec e ps_command))
           \<in> set (interactions m (launch e cfgn cfg m))"
  using assms launch_starts_server [of m e cfgn cfg] launch_not_rejected [of e cfgn cfg m reason]
    launch_exec_callback [of e m cfgn cfg]
  by (simp add: launch_fields)

theorem listing_error_ignored_witness:
  "fst (exec env_ps_error ps_command) = Some (ExecError 127)
   \<and> server_start_invoked driver0 (launch env_ps_error None config0 driver0)
   \<and> deferred (launch env_ps_error None config0 driver0) \<noteq> Some (Rejected ProcessQueryError)
   \<and> openProcesses (launch env_ps_error None config0 driver0) = Some []"
proof -
  have h: "fst (exec env_ps_error ps_command) = Some (ExecError 127)"
    by (simp add: env_ps_error_def)
  have l: "parsed [] = []" by code_simp
  from listing_error_ignored [OF h, of driver0 None config0 ProcessQueryError] h l
  show ?thesis by (simp add: env_ps_error_def)
qed

text \<open>
  Claim C3, as the specification states it, fails: in the run below the external server
  never starts, the promise of the launch stays pending, and both write functions of the
  console are the no-op, not the functions from before the redirection.
\<close>

theorem failed_start_counterexample:
  "appium_run env_no_start (appiumArgs (launch env_no_start None config0 driver0)) = None
   \<and> deferred (launch env_no_start None config0 driver0) = Some Pending
   \<and> stdout_write driver0 = WNative ''stdout.write''
   \<and> stdout_write (launch env_no_start None config0 driver0) = WNoop 0
   \<and> stderr_write driver0 = WNative ''stderr.write''
   \<and> stderr_write (launch env_no_start None config0 driver0) = WNoop 0"
  by (simp add: launch_outcome launch_fields env_no_start_def driver0_def IosDriver_def)

text \<open>
  Claim C3, amended. If the external server does not start, so that the callback of
  \<^verbatim>\<open>appium.run\<close> is never called, the promise of the launch stays pending (it is neither
  fulfilled nor rejected), and both write functions of the console stay the no-op that the
  suppression installed; the functions from before the redirection are kept in
  \<^verbatim>\<open>oldWrite\<close> and \<^verbatim>\<open>oldWriteErr\<close>.
\<close>

theorem failed_start_stays_pending:
  fixes e cfgn cfg m
  defines "m1 \<equiv> prepared cfgn cfg m"
  defines "r1 \<equiv> findAPortNotInUse e (port m1) (maxPort m1) (host m1)"
  defines "r2 \<equiv> findAPortNotInUse e (webhookPort m1) (maxWebhookPort m1) (host m1)"
  defines "m' \<equiv> launch e cfgn cfg m"
  assumes "appium_run e (run_args m1 (snd r1) (snd r2)) = None"
  shows "deferred m' = Some Pending
     \<and> stdout_write m' = WNoop (noops m) \<and> stderr_write m' = WNoop (noops m)
     \<and> oldWrite m' = stdout_write m \<and> oldWriteErr m' = stderr_write m"
  using assms(5) unfolding m'_def m1_def r1_def r2_def
  by (simp add: launch_outcome launch_fields)

theorem failed_start_stays_pending_witness:
  "deferred (launch env_no_start None config0 driver0) = Some Pending
   \<and> stdout_write (launch env_no_start None config0 driver0) = WNoop 0
   \<and> stderr_write (launch env_no_start None config0 driver0) = WNoop 0
   \<and> oldWrite (launch env_no_start None config0 driver0) = WNative ''stdout.write''
   \<and> oldWriteErr (launch env_no_start None config0 driver0) = WNative ''stderr.write''"
proof -
  have h: "appium_run env_no_start args = None" for args
    by (simp add: env_no_start_def)
  have d: "stdout_write driver0 = WNative ''stdout.write''"
    "stderr_write driver0 = WNative ''stderr.write''" "noops driver0 = 0"
    by (simp_all add: driver0_def IosDriver_def)
  from failed_start_stays_pending [OF h, where cfgn = None and cfg = config0 and m = driver0]
  show ?thesis unfolding d by blast
qed

text \<open>
  Claim C8, as the specification states it, fails: in the run below the server signals
  readiness and the launch is fulfilled, and the write function of stderr is the no-op, not
  the function from before the suppression.
\<close>

theorem readiness_counterexample:
  "deferred (launch env_ok None config0 driver0) = Some Fulfilled
   \<and> stderr_write driver0 = WNative ''stderr.write''
   \<and> stderr_write (launch env_ok None config0 driver0) = WNoop 0"
  by (simp add: launch_outcome launch_fields env_ok_def driver0_def IosDriver_def)

text \<open>
  Claim C8, amended. The restore step at readiness is the inverse of the suppression on
  stdout only: after the console is suppressed and the server has signalled readiness, the
  write function of stdout is the one from before the suppression, and the write function
  of stderr is still the no-op. The one from before the suppression is kept in
  \<^verbatim>\<open>oldWriteErr\<close>, and the teardown of that driver puts it back.
\<close>

theorem readiness_restores_stdout:
  fixes e cfgn cfg m
  defines "m1 \<equiv> prepared cfgn cfg m"
  defines "r1 \<equiv> findAPortNotInUse e (port m1) (maxPort m1) (host m1)"
  defines "r2 \<equiv> findAPortNotInUse e (webhookPort m1) (maxWebhookPort m1) (host m1)"
  defines "m' \<equiv> launch e cfgn cfg m"
  assumes "appium_run e (run_args m1 (snd r1) (snd r2)) = Some server"
  shows "stdout_write (p_reinstantiateLog (p_suppressAppiumLogs m)) = stdout_write m
     \<and> stderr_write (p_reinstantiateLog (p_suppressAppiumLogs m)) = WNoop (noops m)
     \<and> deferred m' = Some Fulfilled
     \<and> stdout_write m' = stdout_write m
     \<and> stderr_write m' = WNoop (noops m) \<and> oldWriteErr m' = stderr_write m
     \<and> (\<exists>m''. kill e' m' = Inr m'' \<and> stderr_write m'' = stderr_write m
              \<and> stdout_write m'' = stdout_write m)"
proof -
  have fn: "stdout_write (p_reinstantiateLog (p_suppressAppiumLogs m)) = stdout_write m"
    "stderr_write (p_reinstantiateLog (p_suppressAppiumLogs m)) = WNoop (noops m)"
    by (simp_all add: p_reinstantiateLog_def p_suppressAppiumLogs_def Let_def)
  have ready: "deferred m' = Some Fulfilled" "stdout_write m' = stdout_write m"
    "stderr_write m' = WNoop (noops m)" "oldWriteErr m' = stderr_write m"
    "appiumServer m' = Some server"
    "openProcesses m' = Some (parsed (snd (exec e ps_command)))"
    using assms(5) unfolding m'_def m1_def r1_def r2_def
    by (simp_all add: launch_outcome launch_fields)
  from kill_Some [OF ready(5) ready(6), of e'] ready
  have "\<exists>m''. kill e' m' = Inr m'' \<and> stderr_write m'' = stderr_write m
              \<and> stdout_write m'' = stdout_write m"
    by simp
  with fn ready show ?thesis by blast
qed

theorem readiness_restores_stdout_witness:
  "deferred (launch env_ok None config0 driver0) = Some Fulfilled
   \<and> stdout_write (launch env_ok None config0 driver0) = WNative ''stdout.write''
   \<and> stderr_write (launch env_ok None config0 driver0) = WNoop 0
   \<and> (\<exists>m''. kill env_later (launch env_ok None config0 driver0) = Inr m''
          \<and> stderr_write m'' = WNative ''stderr.write'')"
proof -
  have h: "appium_run env_ok args = Some (AppiumServer 1)" for args
    by (simp add: env_ok_def)
  have d: "stdout_write driver0 = WNative ''stdout.write''"
    "stderr_write driver0 = WNative ''stderr.write''" "noops driver0 = 0"
    by (simp_all add: driver0_def IosDriver_def)
  from readiness_restores_stdout [OF h, where cfgn = None and cfg = config0 and m = driver0
      and e' = env_later]
  show ?thesis unfolding d by blast
qed

text \<open>
  Claim C6. For every browser entry of the user's configuration: a single fixed port (a
  number other than 0, which JavaScript takes as not given) without a two-element range
  sets the preferred port to that number and the maximum to that number plus 90; a
  two-element port range sets the preferred port to its first element and the maximum to
  its second; each emits its system log message. The same holds for the webhook port and
  the webhook port range. In a launch with one browser entry these messages come before
  the first call of the port scanner, which is called with the bounds so set, and the call
  for the webhook port follows with the webhook bounds so set.
\<close>

theorem user_defined_ports:
  "(ios b = Some i \<and> ios_port i = Some p \<and> p \<noteq> 0 \<and> \<not> is_pair (ios_portRange i) \<longrightarrow>
      port (p_checkAppiumPorts b m) = p \<and> maxPort (p_checkAppiumPorts b m) = Some (p + 90)
      \<and> trace (p_checkAppiumPorts b m) = trace m @ [user_port_message p])
   \<and> (ios b = Some i \<and> ios_portRange i = Some [lo, hi] \<longrightarrow>
      port (p_checkAppiumPorts b m) = lo \<and> maxPort (p_checkAppiumPorts b m) = Some hi
      \<and> last (trace (p_checkAppiumPorts b m)) = user_range_message lo hi)
   \<and> (ios b = Some i \<and> ios_webhookPort i = Some q \<and> q \<noteq> 0
        \<and> \<not> is_pair (ios_webhookPortRange i) \<longrightarrow>
      webhookPort (p_checkWebhookPorts b m) = q
      \<and> maxWebhookPort (p_checkWebhookPorts b m) = Some (q + 90)
      \<and> trace (p_checkWebhookPorts b m) = trace m @ [user_webhook_port_message q])
   \<and> (ios b = Some i \<and> ios_webhookPortRange i = Some [wlo, whi] \<longrightarrow>
      webhookPort (p_checkWebhookPorts b m) = wlo
      \<and> maxWebhookPort (p_checkWebhookPorts b m) = Some whi
      \<and> last (trace (p_checkWebhookPorts b m)) = user_webhook_range_message wlo whi)
   \<and> (cfg_browsers cfg = BrowsersArray [b] \<longrightarrow>
        (\<exists>rest. added m (launch e cfgn cfg m) =
           added m (p_checkUserDefinedPorts b m)
             @ PortScanCall (port (p_checkUserDefinedPorts b m))
                 (maxPort (p_checkUserDefinedPorts b m)) (host m) # rest
           \<and> PortScanCall (webhookPort (p_checkUserDefinedPorts b m))
                 (maxWebhookPort (p_checkUserDefinedPorts b m)) (host m) \<in> set rest))"
proof -
  have single: "\<exists>rest. added m (launch e cfgn cfg m) =
           added m (p_checkUserDefinedPorts b m)
             @ PortScanCall (port (p_checkUserDefinedPorts b m))
                 (maxPort (p_checkUserDefinedPorts b m)) (host m) # rest
           \<and> PortScanCall (webhookPort (p_checkUserDefinedPorts b m))
                 (maxWebhookPort (p_checkUserDefinedPorts b m)) (host m) \<in> set rest"
    if one: "cfg_browsers cfg = BrowsersArray [b]"
  proof -
    obtain ems where ems: "trace (p_checkUserDefinedPorts b m) = trace m @ ems"
      using p_checkUserDefinedPorts_emits by blast
    show ?thesis
      unfolding added_def launch_trace prepared_single [OF one] prepared_frame
      by (simp add: ems)
  qed
  have c1: "ios b = Some i \<and> ios_port i = Some p \<and> p \<noteq> 0 \<and> \<not> is_pair (ios_portRange i) \<longrightarrow>
      port (p_checkAppiumPorts b m) = p \<and> maxPort (p_checkAppiumPorts b m) = Some (p + 90)
      \<and> trace (p_checkAppiumPorts b m) = trace m @ [user_port_message p]"
    using p_checkAppiumPorts_port [of b i p m] by blast
  have c2: "ios b = Some i \<and> ios_portRange i = Some [lo, hi] \<longrightarrow>
      port (p_checkAppiumPorts b m) = lo \<and> maxPort (p_checkAppiumPorts b m) = Some hi
      \<and> last (trace (p_checkAppiumPorts b m)) = user_range_message lo hi"
    using p_checkAppiumPorts_range [of b i lo hi m] by blast
  have c3: "ios b = Some i \<and> ios_webhookPort i = Some q \<and> q \<noteq> 0
        \<and> \<not> is_pair (ios_webhookPortRange i) \<longrightarrow>
      webhookPort (p_checkWebhookPorts b m) = q
      \<and> maxWebhookPort (p_checkWebhookPorts b m) = Some (q + 90)
      \<and> trace (p_checkWebhookPorts b m) = trace m @ [user_webhook_port_message q]"
    using p_checkWebhookPorts_port [of b i q m] by blast
  have c4: "ios b = Some i \<and> ios_webhookPortRange i = Some [wlo, whi] \<longrightarrow>
      webhookPort (p_checkWebhookPorts b m) = wlo
      \<and> maxWebhookPort (p_checkWebhookPorts b m) = Some whi
      \<and> last (trace (p_checkWebhookPorts b m)) = user_webhook_range_message wlo whi"
    using p_checkWebhookPorts_range [of b i wlo whi m] by blast
  from single have c5: "cfg_browsers cfg = BrowsersArray [b] \<longrightarrow>
        (\<exists>rest. added m (launch e cfgn cfg m) =
           added m (p_checkUserDefinedPorts b m)
             @ PortScanCall (port (p_checkUserDefinedPorts b m))
                 (maxPort (p_checkUserDefinedPorts b m)) (host m) # rest
           \<and> PortScanCall (webhookPort (p_checkUserDefinedPorts b m))
                 (maxWebhookPort (p_checkUserDefinedPorts b m)) (host m) \<in> set rest)"
    by (rule impI)
  show ?thesis
    by (rule conjI [OF c1 conjI [OF c2 conjI [OF c3 conjI [OF c4 c5]]]])
qed

theorem user_defined_ports_witness:
  "port (p_checkAppiumPorts browser_port driver0) = 5555
   \<and> maxPort (p_checkAppiumPorts browser_port driver0) = Some 5645
   \<and> webhookPort (p_checkWebhookPorts browser_port driver0) = 7000
   \<and> maxWebhookPort (p_checkWebhookPorts browser_port driver0) = Some 7090
   \<and> port (p_checkAppiumPorts browser_range driver0) = 6100
   \<and> maxPort (p_checkAppiumPorts browser_range driver0) = Some 6120
   \<and> webhookPort (p_checkWebhookPorts browser_range driver0) = 7100
   \<and> maxWebhookPort (p_checkWebhookPorts browser_range driver0) = Some 7120
   \<and> (\<exists>rest. trace (launch env_ok None config_range driver0) =
         Emit ''report:log:system''
           ''dalek-browser-ios: Switching to user defined port(s): 6100 -> 6120''
         # PortScanCall 6100 (Some 6120) ''localhost'' # rest)"
proof -
  let ?ip = "ios_none\<lparr>ios_port := Some 5555, ios_webhookPort := Some 7000\<rparr>"
  let ?ir = "ios_none\<lparr>ios_portRange := Some [6100, 6120],
                       ios_webhookPortRange := Some [7100, 7120]\<rparr>"
  let ?b = "\<lparr> ios = Some (ios_none\<lparr>ios_portRange := Some [6100, 6120]\<rparr>) \<rparr>"
  have s: "js_string_of_int 6100 = ''6100''" "js_string_of_int 6120 = ''6120''"
    by (simp_all add: js_string_of_int_def digits.simps digit_char_def)
  have u: "port (p_checkUserDefinedPorts ?b driver0) = 6100"
    "maxPort (p_checkUserDefinedPorts ?b driver0) = Some 6120"
    "trace (p_checkUserDefinedPorts ?b driver0) = [user_range_message 6100 6120]"
    "trace driver0 = []" "host driver0 = ''localhost''"
    by (simp_all add: p_checkUserDefinedPorts_def p_checkAppiumPorts_def
        p_checkWebhookPorts_def ios_none_def emit_def Let_def parseInt_def driver0_def
        IosDriver_def user_range_message_def)
  from user_defined_ports [where b = browser_port and i = ?ip and p = 5555 and q = 7000
      and m = driver0]
  have a: "port (p_checkAppiumPorts browser_port driver0) = 5555
    \<and> maxPort (p_checkAppiumPorts browser_port driver0) = Some 5645
    \<and> webhookPort (p_checkWebhookPorts browser_port driver0) = 7000
    \<and> maxWebhookPort (p_checkWebhookPorts browser_port driver0) = Some 7090"
    by (simp add: browser_port_def ios_none_def)
  from user_defined_ports [where b = browser_range and i = ?ir and lo = 6100 and hi = 6120
      and wlo = 7100 and whi = 7120 and m = driver0]
  have b: "port (p_checkAppiumPorts browser_range driver0) = 6100
    \<and> maxPort (p_checkAppiumPorts browser_range driver0) = Some 6120
    \<and> webhookPort (p_checkWebhookPorts browser_range driver0) = 7100
    \<and> maxWebhookPort (p_checkWebhookPorts browser_range driver0) = Some 7120"
    by (simp add: browser_range_def ios_none_def)
  from user_defined_ports [where b = ?b and cfg = config_range and m = driver0
      and e = env_ok and cfgn = None, THEN conjunct2, THEN conjunct2, THEN conjunct2,
      THEN conjunct2]
  have c: "\<exists>rest. trace (launch env_ok None config_range driver0) =
         Emit ''report:log:system''
           ''dalek-browser-ios: Switching to user defined port(s): 6100 -> 6120''
         # PortScanCall 6100 (Some 6120) ''localhost'' # rest"
    unfolding config_range_def added_def u s user_range_message_def
    by auto
  from a b c show ?thesis by blast
qed

text \<open>
  Claim C10. When one browser entry gives both a single fixed port and a two-element port
  range, the range wins: the port override is applied first (its message comes first), the
  range override is applied after it and overwrites both values, so that the preferred
  port and the maximum are the two elements of the range. The same holds for the webhook
  port and the webhook port range, and for both together after \<^verbatim>\<open>_checkUserDefinedPorts\<close>.
\<close>

theorem range_overrides_port:
  "(ios b = Some i \<and> ios_port i = Some p \<and> p \<noteq> 0 \<and> ios_portRange i = Some [lo, hi] \<longrightarrow>
      port (p_checkAppiumPorts b m) = lo \<and> maxPort (p_checkAppiumPorts b m) = Some hi
      \<and> trace (p_checkAppiumPorts b m) = trace m @ [user_port_message p, user_range_message lo hi])
   \<and> (ios b = Some i \<and> ios_webhookPort i = Some q \<and> q \<noteq> 0
        \<and> ios_webhookPortRange i = Some [wlo, whi] \<longrightarrow>
      webhookPort (p_checkWebhookPorts b m) = wlo
      \<and> maxWebhookPort (p_checkWebhookPorts b m) = Some whi
      \<and> trace (p_checkWebhookPorts b m)
          = trace m @ [user_webhook_port_message q, user_webhook_range_message wlo whi])
   \<and> (ios b = Some i \<and> ios_portRange i = Some [lo, hi]
        \<and> ios_webhookPortRange i = Some [wlo, whi] \<longrightarrow>
      port (p_checkUserDefinedPorts b m) = lo \<and> maxPort (p_checkUserDefinedPorts b m) = Some hi
      \<and> webhookPort (p_checkUserDefinedPorts b m) = wlo
      \<and> maxWebhookPort (p_checkUserDefinedPorts b m) = Some whi)"
proof -
  have c1: "ios b = Some i \<and> ios_port i = Some p \<and> p \<noteq> 0 \<and> ios_portRange i = Some [lo, hi] \<longrightarrow>
      port (p_checkAppiumPorts b m) = lo \<and> maxPort (p_checkAppiumPorts b m) = Some hi
      \<and> trace (p_checkAppiumPorts b m) = trace m @ [user_port_message p, user_range_message lo hi]"
    using p_checkAppiumPorts_range [of b i lo hi m] p_checkAppiumPorts_both [of b i p lo hi m]
    by blast
  have c2: "ios b = Some i \<and> ios_webhookPort i = Some q \<and> q \<noteq> 0
        \<and> ios_webhookPortRange i = Some [wlo, whi] \<longrightarrow>
      webhookPort (p_checkWebhookPorts b m) = wlo
      \<and> maxWebhookPort (p_checkWebhookPorts b m) = Some whi
      \<and> trace (p_checkWebhookPorts b m)
          = trace m @ [user_webhook_port_message q, user_webhook_range_message wlo whi]"
    using p_checkWebhookPorts_range [of b i wlo whi m]
      p_checkWebhookPorts_both [of b i q wlo whi m]
    by blast
  have c3: "ios b = Some i \<and> ios_portRange i = Some [lo, hi]
        \<and> ios_webhookPortRange i = Some [wlo, whi] \<longrightarrow>
      port (p_checkUserDefinedPorts b m) = lo \<and> maxPort (p_checkUserDefinedPorts b m) = Some hi
      \<and> webhookPort (p_checkUserDefinedPorts b m) = wlo
      \<and> maxWebhookPort (p_checkUserDefinedPorts b m) = Some whi"
    using p_checkAppiumPorts_range [of b i lo hi m]
      p_checkWebhookPorts_range [of b i wlo whi "p_checkAppiumPorts b m"]
    by (simp add: p_checkUserDefinedPorts_def p_checkWebhookPorts_frame)
  show ?thesis
    by (rule conjI [OF c1 conjI [OF c2 c3]])
qed

theorem range_overrides_port_witness:
  "port (p_checkAppiumPorts browser_both driver0) = 6100
   \<and> maxPort (p_checkAppiumPorts browser_both driver0) = Some 6120
   \<and> trace (p_checkAppiumPorts browser_both driver0)
       = [user_port_message 5555, user_range_message 6100 6120]
   \<and> webhookPort (p_checkWebhookPorts browser_both driver0) = 7100
   \<and> maxWebhookPort (p_checkWebhookPorts browser_both driver0) = Some 7120
   \<and> trace (p_checkWebhookPorts browser_both driver0)
       = [user_webhook_port_message 7000, user_webhook_range_message 7100 7120]
   \<and> port (p_checkUserDefinedPorts browser_both driver0) = 6100
   \<and> maxPort (p_checkUserDefinedPorts browser_both driver0) = Some 6120
   \<and> webhookPort (p_checkUserDefinedPorts browser_both driver0) = 7100
   \<and> maxWebhookPort (p_checkUserDefinedPorts browser_both driver0) = Some 7120"
proof -
  let ?i = "\<lparr> ios_port = Some 5555, ios_portRange = Some [6100, 6120],
              ios_webhookPort = Some 7000, ios_webhookPortRange = Some [7100, 7120] \<rparr>"
  have d: "trace driver0 = []"
    by (simp add: driver0_def IosDriver_def)
  from range_overrides_port [where b = browser_both and i = ?i and p = 5555 and lo = 6100
      and hi = 6120 and q = 7000 and wlo = 7100 and whi = 7120 and m = driver0]
  show ?thesis by (simp add: browser_both_def d)
qed

end
